theory Spec2Isabelle
  imports Complex_Main "HOL-Library.Multiset"
begin

section \<open>Data model\<close>

text \<open>
  The alert pipeline of the telemetry service: \<open>module/database.py\<close>
  (\<open>detect_temperature_spikes\<close>), \<open>module/alertas.py\<close> (\<open>generar_alertas\<close>),
  \<open>module/correo.py\<close> (\<open>EnviarCorreoSSL\<close>), \<open>module/alertas_manager.py\<close>
  (\<open>AlertManager\<close>) and the periodic loop of \<open>main.py\<close>.

  Numbers. The temperature column is a SQL decimal (\<open>main.py\<close> serialises \<open>Decimal\<close>),
  an exact decimal fraction, modelled as \<open>rat\<close>; a SQL NULL is \<open>None\<close>. A \<open>datetime\<close> is
  the number of microseconds since a fixed origin (\<open>int\<close>), a \<open>timedelta\<close> a number of
  microseconds. \<open>total_seconds() / 60\<close> is the exact quotient in \<open>rat\<close>; the bounds it is
  compared with (0, 10, 15, 20 minutes) are whole numbers of microseconds, so the
  comparisons agree with the ones on Python floats.

  Python dictionaries with fixed keys are records. The rows of the two queries have the
  same keys; the alert dictionaries share the key \<open>ubicacion\<close> with them.
\<close>

datatype py_error =
    TypeError       \<comment> \<open>an operator applied to \<open>None\<close>\<close>
  | KeyError        \<comment> \<open>a missing dictionary key\<close>
  | DatabaseError   \<comment> \<open>\<open>mariadb.Error\<close> raised by connect, execute or fetch\<close>
  | FileError       \<comment> \<open>a configuration file that cannot be opened or parsed\<close>
  | OSError         \<comment> \<open>a socket or TLS failure, not an \<open>smtplib.SMTPException\<close>\<close>

record ubicado =
  ubicacion :: string

record lectura = ubicado +
  temperatura :: "rat option"
  fecha_hora :: int

text \<open>
  The text of an alert is an f-string over the location and the numeric evidence. The
  model keeps which template was used and the values put into it; the rendering of
  the numbers to characters (\<open>{temp}\<close>, \<open>{delta_temp:+.1f}\<close>, \<open>{delta_min:.0f}\<close>) is not
  modelled.
\<close>

datatype texto =
    TemperaturaCritica rat string    \<comment> \<open>\<open>TEMPERATURA CRITICA {temp} C en {ubic}\<close>\<close>
  | TemperaturaElevada rat string    \<comment> \<open>\<open>Temperatura elevada {temp} C en {ubic}\<close>\<close>
  | SubidaCritica string rat rat     \<comment> \<open>\<open>SUBIDA CRITICA -> {ubicacion}: {delta_temp} C en {delta_min} min POSIBLE EMERGENCIA\<close>\<close>
  | SubidaRapida string rat rat      \<comment> \<open>\<open>Subida rapida -> {ubicacion}: {delta_temp} C en {delta_min} min\<close>\<close>
  | BajadaBrusca string rat rat      \<comment> \<open>\<open>Bajada brusca -> {ubicacion}: {delta_temp} C en {delta_min} min -> Revisar sensor\<close>\<close>

record alerta = ubicado +
  nivel :: string
  texto :: texto

text \<open>\<open>prioridad = {"roja": 0, "amarilla": 1, "azul": 2}\<close> and \<open>prioridad.get(k, d)\<close>.\<close>

definition prioridad :: "string \<rightharpoonup> nat" where
  "prioridad = [''roja'' \<mapsto> 0, ''amarilla'' \<mapsto> 1, ''azul'' \<mapsto> 2]"

definition prioridad_get :: "nat \<Rightarrow> string \<Rightarrow> nat" where
  "prioridad_get d k = (case prioridad k of None \<Rightarrow> d | Some v \<Rightarrow> v)"


section \<open>The spike detector (\<open>database.py\<close>)\<close>

text \<open>
  \<open>datos.setdefault(loc, []).append(r)\<close> on an insertion-ordered dictionary, as an
  association list: a known key gets the row appended to its list, a new key is added
  at the end.
\<close>

fun setdefault_append :: "(string \<times> lectura list) list \<Rightarrow> string \<Rightarrow> lectura \<Rightarrow> (string \<times> lectura list) list" where
  "setdefault_append [] loc r = [(loc, [r])]"
| "setdefault_append ((k, v) # datos) loc r =
     (if k = loc then (k, v @ [r]) # datos else (k, v) # setdefault_append datos loc r)"

definition agrupar :: "lectura list \<Rightarrow> (string \<times> lectura list) list" where
  "agrupar rows = foldl (\<lambda>datos r. setdefault_append datos (ubicacion r) r) [] rows"

text \<open>
  The backward scan \<open>for i in range(len(lecturas) - 2, -1, -1)\<close>: the nearest row before
  the last one whose temperature is not \<open>None\<close>; \<open>None\<close> is the \<open>else: continue\<close> of the loop.
\<close>

definition buscar_anterior :: "lectura list \<Rightarrow> lectura option" where
  "buscar_anterior lecturas = find (\<lambda>r. temperatura r \<noteq> None) (rev (butlast lecturas))"

definition delta_minutos :: "lectura \<Rightarrow> lectura \<Rightarrow> rat" where
  "delta_minutos ultima anterior =
     of_int (fecha_hora ultima - fecha_hora anterior) / 1000000 / 60"

text \<open>
  The classification at the end of the loop body: the alerts appended for one location
  (none or one), given the two differences.
\<close>

definition clasificar :: "string \<Rightarrow> rat \<Rightarrow> rat \<Rightarrow> alerta list" where
  "clasificar u delta_temp delta_min =
     (if delta_min \<le> 0 \<or> delta_min > 20 then []
      else if delta_temp \<ge> 4 \<and> delta_min \<le> 10 then
        [\<lparr>ubicacion = u, nivel = ''roja'', texto = SubidaCritica u delta_temp delta_min\<rparr>]
      else if delta_temp \<ge> 5 / 2 \<and> delta_min \<le> 10 then
        [\<lparr>ubicacion = u, nivel = ''amarilla'', texto = SubidaRapida u delta_temp delta_min\<rparr>]
      else if delta_temp \<le> - 5 \<and> delta_min \<le> 15 then
        [\<lparr>ubicacion = u, nivel = ''azul'', texto = BajadaBrusca u delta_temp delta_min\<rparr>]
      else [])"

text \<open>
  One iteration of \<open>for ubicacion, lecturas in datos.items()\<close>. Subtracting with a
  \<open>None\<close> temperature raises \<open>TypeError\<close>.
\<close>

definition procesar :: "string \<Rightarrow> lectura list \<Rightarrow> py_error + alerta list" where
  "procesar u lecturas0 =
     (if length lecturas0 < 2 then Inr []
      else
        let lecturas = sort_key fecha_hora lecturas0;
            ultima = last lecturas
        in case buscar_anterior lecturas of
             None \<Rightarrow> Inr []
           | Some anterior \<Rightarrow>
               (case (temperatura ultima, temperatura anterior) of
                  (Some tu, Some ta) \<Rightarrow>
                    Inr (clasificar u (tu - ta) (delta_minutos ultima anterior))
                | _ \<Rightarrow> Inl TypeError))"

fun recorrer :: "(string \<times> lectura list) list \<Rightarrow> alerta list \<Rightarrow> py_error + alerta list" where
  "recorrer [] alertas = Inr alertas"
| "recorrer ((u, lecturas) # datos) alertas =
     (case procesar u lecturas of
        Inl e \<Rightarrow> Inl e
      | Inr nuevas \<Rightarrow> recorrer datos (alertas @ nuevas))"

text \<open>
  The part of \<open>detect_temperature_spikes\<close> after \<open>rows = cur.fetchall()\<close>: the early
  return on no rows, the grouping, the loop and the final sort
  \<open>alertas.sort(key=lambda x: prioridad.get(x["nivel"], 9))\<close>. Python's \<open>list.sort\<close> is
  stable, as \<open>sort_key\<close> is.
\<close>

definition spikes_de_rows :: "lectura list \<Rightarrow> py_error + alerta list" where
  "spikes_de_rows rows =
     (if rows = [] then Inr []
      else case recorrer (agrupar rows) [] of
             Inl e \<Rightarrow> Inl e
           | Inr alertas \<Rightarrow> Inr (sort_key (\<lambda>x. prioridad_get 9 (nivel x)) alertas))"


section \<open>Configuration, environment and process state\<close>

text \<open>
  \<open>config/parametros.json\<close>. A key that the code reads with \<open>.get(key, default)\<close> is an
  option, \<open>None\<close> when the key is absent; \<open>config["thresholds"]\<close> and the two keys below
  it are read with \<open>[]\<close>, which raises \<open>KeyError\<close> when absent. The interval is a whole
  number of minutes.
\<close>

record email_cfg =
  enabled :: "bool option"
  intervalo_envio_min :: "int option"
  destinatarios :: "string list option"

record config =
  thresholds :: "(string \<rightharpoonup> rat) option"
  detectar_spikes :: "bool option"
  email :: "email_cfg option"

record credenciales =
  remitente :: string
  smtp_server :: string
  smtp_port :: int
  smtp_user :: string
  smtp_pass :: string

text \<open>
  What the \<open>try\<close> block of \<open>EnviarCorreoSSL\<close> does for one recipient: it completes, or
  the SMTP session raises. The constructors follow the \<open>except\<close> clauses in their order;
  \<open>SMTPException\<close> stands for every other subclass of \<open>smtplib.SMTPException\<close>, and
  \<open>NoSMTP\<close> for an exception outside that hierarchy (a refused or timed-out connection,
  a failed name lookup, a TLS error), which no clause catches.
\<close>

datatype excepcion =
    SMTPAuthenticationError
  | SMTPSenderRefused
  | SMTPRecipientsRefused
  | SMTPDataError
  | SMTPException
  | NoSMTP

datatype cadena =
    CorreoEnviado string string string
  | ContrasenaIncorrecta string string
  | RemitenteRechazado string string
  | DestinatarioRechazado string string
  | ErrorEnviando string string
  | ExcepcionSMTP

text \<open>
  Everything a call reads from outside the process: the two configuration files, the
  answers of the database to the two queries (by location filter), the clock, and the
  behaviour of the SMTP server for each recipient.
\<close>

record entorno =
  parametros_json :: "py_error + config"
  credenciales_json :: "py_error + credenciales"
  latest_rows :: "string option \<Rightarrow> py_error + lectura list"
  spike_rows :: "string option \<Rightarrow> py_error + lectura list"
  ahora :: int
  smtp :: "string \<Rightarrow> excepcion option"

text \<open>
  The state of the process: the singleton \<open>alert_manager\<close> with its two attributes, and
  the trace of what the process did to the outside: the queries it ran and the calls of
  the mailer.
\<close>

record AlertManager =
  last_alert_sent :: "int option"
  ultimas_alertas :: "alerta list"

datatype consulta = ConsultaLatest "string option" | ConsultaSpikes "string option"

record envio =
  destinatario :: string
  asunto :: string
  mensaje :: "(string \<times> texto) list"

record mundo =
  alert_manager :: AlertManager
  consultas :: "consulta list"
  correos :: "envio list"

text \<open>\<open>AlertManager.__init__\<close> and the state of a process that has just started.\<close>

definition AlertManager_init :: AlertManager where
  "AlertManager_init = \<lparr>last_alert_sent = None, ultimas_alertas = []\<rparr>"

definition mundo_inicial :: mundo where
  "mundo_inicial = \<lparr>alert_manager = AlertManager_init, consultas = [], correos = []\<rparr>"


section \<open>Data access (\<open>database.py\<close>)\<close>

text \<open>
  The two functions run one query each. The SQL itself is executed by the database and
  is not modelled: its answer is taken from the environment. \<open>get_latest_readings\<close>
  passes the filter as it is; \<open>detect_temperature_spikes\<close> adds the filter only
  \<open>if location:\<close>, so \<open>None\<close> and the empty string both mean no filter
  (\<open>filtro_spikes\<close>).
\<close>

definition get_latest_readings :: "entorno \<Rightarrow> string option \<Rightarrow> mundo \<Rightarrow> (py_error + lectura list) \<times> mundo" where
  "get_latest_readings env location_filter w =
     (latest_rows env location_filter,
      w\<lparr>consultas := consultas w @ [ConsultaLatest location_filter]\<rparr>)"

definition filtro_spikes :: "string option \<Rightarrow> string option" where
  "filtro_spikes location =
     (case location of None \<Rightarrow> None | Some l \<Rightarrow> if l = [] then None else Some l)"

definition detect_temperature_spikes :: "entorno \<Rightarrow> string option \<Rightarrow> mundo \<Rightarrow> (py_error + alerta list) \<times> mundo" where
  "detect_temperature_spikes env location w =
     (let w' = w\<lparr>consultas := consultas w @ [ConsultaSpikes (filtro_spikes location)]\<rparr>
      in case spike_rows env (filtro_spikes location) of
           Inl e \<Rightarrow> (Inl e, w')
         | Inr rows \<Rightarrow> (spikes_de_rows rows, w'))"


section \<open>The aggregator (\<open>alertas.py\<close>)\<close>

text \<open>
  The body of \<open>for r in lecturas\<close>. \<open>temp >= thresholds["danger"]\<close> looks the key up
  first and then compares; comparing \<open>None\<close> with a number raises \<open>TypeError\<close>.
\<close>

definition evaluar_umbral :: "(string \<rightharpoonup> rat) \<Rightarrow> lectura \<Rightarrow> py_error + alerta list" where
  "evaluar_umbral th r =
     (let temp = temperatura r; ubic = ubicacion r
      in case th ''danger'' of
           None \<Rightarrow> Inl KeyError
         | Some danger \<Rightarrow>
             (case temp of
                None \<Rightarrow> Inl TypeError
              | Some t \<Rightarrow>
                  if t \<ge> danger then
                    Inr [\<lparr>ubicacion = ubic, nivel = ''roja'', texto = TemperaturaCritica t ubic\<rparr>]
                  else
                    (case th ''warning'' of
                       None \<Rightarrow> Inl KeyError
                     | Some warning \<Rightarrow>
                         if t \<ge> warning then
                           Inr [\<lparr>ubicacion = ubic, nivel = ''amarilla'', texto = TemperaturaElevada t ubic\<rparr>]
                         else Inr [])))"

fun alertas_umbral :: "(string \<rightharpoonup> rat) \<Rightarrow> lectura list \<Rightarrow> alerta list \<Rightarrow> py_error + alerta list" where
  "alertas_umbral th [] alertas = Inr alertas"
| "alertas_umbral th (r # lecturas) alertas =
     (case evaluar_umbral th r of
        Inl e \<Rightarrow> Inl e
      | Inr nuevas \<Rightarrow> alertas_umbral th lecturas (alertas @ nuevas))"

definition generar_alertas :: "entorno \<Rightarrow> string option \<Rightarrow> mundo \<Rightarrow> (py_error + alerta list) \<times> mundo" where
  "generar_alertas env location w =
     (case parametros_json env of
        Inl e \<Rightarrow> (Inl e, w)
      | Inr config \<Rightarrow>
          (case thresholds config of
             None \<Rightarrow> (Inl KeyError, w)
           | Some th \<Rightarrow>
               (case get_latest_readings env location w of
                  (Inl e, w1) \<Rightarrow> (Inl e, w1)
                | (Inr lecturas, w1) \<Rightarrow>
                    (case alertas_umbral th lecturas [] of
                       Inl e \<Rightarrow> (Inl e, w1)
                     | Inr alertas \<Rightarrow>
                         if detectar_spikes config = Some True then
                           (case detect_temperature_spikes env location w1 of
                              (Inl e, w2) \<Rightarrow> (Inl e, w2)
                            | (Inr spikes, w2) \<Rightarrow>
                                (Inr (sort_key (\<lambda>x. prioridad_get 99 (nivel x)) (alertas @ spikes)), w2))
                         else
                           (Inr (sort_key (\<lambda>x. prioridad_get 99 (nivel x)) alertas), w1)))))"


section \<open>The mailer (\<open>correo.py\<close>)\<close>

text \<open>
  \<open>EnviarCorreoSSL\<close> returns \<open>(Aux, Errores)\<close>. The call is recorded in the trace. An
  exception that no \<open>except\<close> clause names leaves the function.
\<close>

definition EnviarCorreoSSL :: "entorno \<Rightarrow> credenciales \<Rightarrow> string \<Rightarrow> string \<Rightarrow> (string \<times> texto) list \<Rightarrow> mundo \<Rightarrow> (py_error + bool \<times> (string \<times> cadena) list) \<times> mundo" where
  "EnviarCorreoSSL env cred dest asunto0 mensaje0 w =
     (let w' = w\<lparr>correos := correos w @ [\<lparr>destinatario = dest, asunto = asunto0, mensaje = mensaje0\<rparr>]\<rparr>
      in case smtp env dest of
           None \<Rightarrow> (Inr (True, [(''Mensaje'', CorreoEnviado dest (smtp_server cred) asunto0)]), w')
         | Some SMTPAuthenticationError \<Rightarrow>
             (Inr (False, [(''Error'', ContrasenaIncorrecta (smtp_user cred) (smtp_server cred))]), w')
         | Some SMTPSenderRefused \<Rightarrow>
             (Inr (False, [(''Error'', RemitenteRechazado (remitente cred) (smtp_server cred))]), w')
         | Some SMTPRecipientsRefused \<Rightarrow>
             (Inr (False, [(''Error'', DestinatarioRechazado dest (smtp_server cred))]), w')
         | Some SMTPDataError \<Rightarrow>
             (Inr (False, [(''Error'', ErrorEnviando (smtp_user cred) (smtp_server cred))]), w')
         | Some SMTPException \<Rightarrow> (Inr (False, [(''Error'', ExcepcionSMTP)]), w')
         | Some NoSMTP \<Rightarrow> (Inl OSError, w'))"


section \<open>The dispatch scheduler (\<open>alertas_manager.py\<close>, \<open>main.py\<close>)\<close>

definition email_de :: "config \<Rightarrow> email_cfg" where
  "email_de cfg = (case email cfg of
                     None \<Rightarrow> \<lparr>enabled = None, intervalo_envio_min = None, destinatarios = None\<rparr>
                   | Some e \<Rightarrow> e)"

text \<open>\<open>timedelta(minutes=email_cfg.get("intervalo_envio_min", 60))\<close>, in microseconds.\<close>

definition intervalo :: "email_cfg \<Rightarrow> int" where
  "intervalo email_cfg =
     (case intervalo_envio_min email_cfg of None \<Rightarrow> 60 | Some m \<Rightarrow> m) * 60 * 1000000"

definition destinatarios_de :: "email_cfg \<Rightarrow> string list" where
  "destinatarios_de email_cfg = (case destinatarios email_cfg of None \<Rightarrow> [] | Some ds \<Rightarrow> ds)"

text \<open>\<open>for dest in email_cfg.get("destinatarios", []): EnviarCorreoSSL(...)\<close>; the result of the call is dropped.\<close>

fun enviar_a_todos :: "entorno \<Rightarrow> credenciales \<Rightarrow> string \<Rightarrow> (string \<times> texto) list \<Rightarrow> string list \<Rightarrow> mundo \<Rightarrow> (py_error + unit) \<times> mundo" where
  "enviar_a_todos env cred asunto0 html [] w = (Inr (), w)"
| "enviar_a_todos env cred asunto0 html (dest # dests) w =
     (case EnviarCorreoSSL env cred dest asunto0 html w of
        (Inl e, w') \<Rightarrow> (Inl e, w')
      | (Inr _, w') \<Rightarrow> enviar_a_todos env cred asunto0 html dests w')"

text \<open>
  \<open>AlertManager.enviar_alertas_si_toca\<close> on the singleton. A \<open>datetime\<close> is always
  true, so \<open>self.last_alert_sent and ...\<close> tests that the attribute is set.
\<close>

definition enviar_alertas_si_toca :: "entorno \<Rightarrow> mundo \<Rightarrow> (py_error + unit) \<times> mundo" where
  "enviar_alertas_si_toca env w =
     (case parametros_json env of
        Inl e \<Rightarrow> (Inl e, w)
      | Inr cfg \<Rightarrow>
          let email_cfg = email_de cfg in
          if enabled email_cfg \<noteq> Some True then (Inr (), w)
          else if (case last_alert_sent (alert_manager w) of
                     None \<Rightarrow> False
                   | Some enviado \<Rightarrow> ahora env - enviado < intervalo email_cfg)
          then (Inr (), w)
          else
            (case generar_alertas env None w of
               (Inl e, w1) \<Rightarrow> (Inl e, w1)
             | (Inr alertas, w1) \<Rightarrow>
                 if alertas = [] then (Inr (), w1)
                 else
                   let w2 = w1\<lparr>alert_manager :=
                                \<lparr>last_alert_sent = Some (ahora env), ultimas_alertas = alertas\<rparr>\<rparr>;
                       html = map (\<lambda>a. (ubicacion a, texto a)) alertas
                   in (case credenciales_json env of
                         Inl e \<Rightarrow> (Inl e, w2)
                       | Inr smtp_cred \<Rightarrow>
                           enviar_a_todos env smtp_cred ''ALERTA DE TEMPERATURA EN CPD'' html
                             (destinatarios_de email_cfg) w2)))"

text \<open>
  \<open>loop_envio_alertas\<close>: one tick per minute, each in its own environment; an
  exception of a tick is printed and the loop goes on with the state the tick left.
  The loop never ends; the model runs the ticks of a finite list of environments.
\<close>

fun loop_envio_alertas :: "entorno list \<Rightarrow> mundo \<Rightarrow> mundo" where
  "loop_envio_alertas [] w = w"
| "loop_envio_alertas (env # envs) w = loop_envio_alertas envs (snd (enviar_alertas_si_toca env w))"


section \<open>A deployment used in the examples\<close>

text \<open>
  Three locations. The window of the spike query holds two rows for each, newest first
  within a location as the query orders them; times are in microseconds, so minute 8
  is \<open>480000000\<close>.
\<close>

definition fila :: "string \<Rightarrow> rat option \<Rightarrow> int \<Rightarrow> lectura" where
  "fila u t minuto = \<lparr>ubicacion = u, temperatura = t, fecha_hora = minuto * 60000000\<rparr>"

definition filas_spikes :: "lectura list" where
  "filas_spikes =
     [fila ''rack-a'' (Some (49 / 2)) 8, fila ''rack-a'' (Some 20) 0,
      fila ''rack-b'' (Some (39 / 2)) 12, fila ''rack-b'' (Some 25) 0,
      fila ''rack-c'' (Some (227 / 10)) 8, fila ''rack-c'' (Some 20) 0]"

definition filas_latest :: "lectura list" where
  "filas_latest =
     [fila ''rack-a'' (Some (49 / 2)) 8, fila ''rack-c'' (Some (227 / 10)) 8,
      fila ''rack-b'' (Some (39 / 2)) 12]"

definition config_ejemplo :: config where
  "config_ejemplo =
     \<lparr>thresholds = Some [''warning'' \<mapsto> 22, ''danger'' \<mapsto> 24],
      detectar_spikes = Some True,
      email = Some \<lparr>enabled = Some True, intervalo_envio_min = Some 30,
                    destinatarios = Some [''ana@cpd.example'', ''luis@cpd.example'']\<rparr>\<rparr>"

definition credenciales_ejemplo :: credenciales where
  "credenciales_ejemplo =
     \<lparr>remitente = ''alertas@cpd.example'', smtp_server = ''smtp.cpd.example'',
      smtp_port = 465, smtp_user = ''alertas'', smtp_pass = ''secreto''\<rparr>"

definition entorno_ejemplo :: "int \<Rightarrow> entorno" where
  "entorno_ejemplo minuto =
     \<lparr>parametros_json = Inr config_ejemplo,
      credenciales_json = Inr credenciales_ejemplo,
      latest_rows = (\<lambda>_. Inr filas_latest),
      spike_rows = (\<lambda>_. Inr filas_spikes),
      ahora = minuto * 60000000,
      smtp = (\<lambda>_. None)\<rparr>"

text \<open>A quiet moment: every latest reading is below the warning threshold and the window is empty.\<close>

definition entorno_tranquilo :: "int \<Rightarrow> entorno" where
  "entorno_tranquilo minuto =
     (entorno_ejemplo minuto)
       \<lparr>latest_rows := (\<lambda>_. Inr [fila ''rack-a'' (Some 21) 8, fila ''rack-b'' (Some (39 / 2)) 12]),
        spike_rows := (\<lambda>_. Inr [])\<rparr>"

text \<open>The SMTP server refuses the connection while the first recipient is served.\<close>

definition entorno_smtp_caido :: "int \<Rightarrow> entorno" where
  "entorno_smtp_caido minuto =
     (entorno_ejemplo minuto)
       \<lparr>smtp := (\<lambda>dest. if dest = ''ana@cpd.example'' then Some NoSMTP else None)\<rparr>"

text \<open>The server rejects the first recipient (\<open>SMTPRecipientsRefused\<close>) and accepts the second.\<close>

definition entorno_rechazo :: "int \<Rightarrow> entorno" where
  "entorno_rechazo minuto =
     (entorno_ejemplo minuto)
       \<lparr>smtp := (\<lambda>dest. if dest = ''ana@cpd.example'' then Some SMTPRecipientsRefused else None)\<rparr>"

text \<open>A faulty sensor: the latest row of one location has a NULL temperature.\<close>

definition entorno_sensor_averiado :: "int \<Rightarrow> entorno" where
  "entorno_sensor_averiado minuto =
     (entorno_ejemplo minuto)
       \<lparr>latest_rows := (\<lambda>_. Inr [fila ''rack-b'' (Some (39 / 2)) 12, fila ''rack-d'' None 12])\<rparr>"

text \<open>
  What the example deployment is expected to produce: the alerts of the detector, the
  threshold alerts, the merged list, and the state of the process after the first tick
  of the scheduler at minute 12.
\<close>

definition spikes_esperados :: "alerta list" where
  "spikes_esperados =
     [\<lparr>ubicacion = ''rack-a'', nivel = ''roja'', texto = SubidaCritica ''rack-a'' (9 / 2) 8\<rparr>,
      \<lparr>ubicacion = ''rack-c'', nivel = ''amarilla'', texto = SubidaRapida ''rack-c'' (27 / 10) 8\<rparr>,
      \<lparr>ubicacion = ''rack-b'', nivel = ''azul'', texto = BajadaBrusca ''rack-b'' (- (11 / 2)) 12\<rparr>]"

definition umbral_esperados :: "alerta list" where
  "umbral_esperados =
     [\<lparr>ubicacion = ''rack-a'', nivel = ''roja'', texto = TemperaturaCritica (49 / 2) ''rack-a''\<rparr>,
      \<lparr>ubicacion = ''rack-c'', nivel = ''amarilla'', texto = TemperaturaElevada (227 / 10) ''rack-c''\<rparr>]"

definition alertas_esperadas :: "alerta list" where
  "alertas_esperadas =
     [\<lparr>ubicacion = ''rack-a'', nivel = ''roja'', texto = TemperaturaCritica (49 / 2) ''rack-a''\<rparr>,
      \<lparr>ubicacion = ''rack-a'', nivel = ''roja'', texto = SubidaCritica ''rack-a'' (9 / 2) 8\<rparr>,
      \<lparr>ubicacion = ''rack-c'', nivel = ''amarilla'', texto = TemperaturaElevada (227 / 10) ''rack-c''\<rparr>,
      \<lparr>ubicacion = ''rack-c'', nivel = ''amarilla'', texto = SubidaRapida ''rack-c'' (27 / 10) 8\<rparr>,
      \<lparr>ubicacion = ''rack-b'', nivel = ''azul'', texto = BajadaBrusca ''rack-b'' (- (11 / 2)) 12\<rparr>]"

definition correo_esperado :: "string \<Rightarrow> envio" where
  "correo_esperado dest =
     \<lparr>destinatario = dest, asunto = ''ALERTA DE TEMPERATURA EN CPD'',
      mensaje = map (\<lambda>a. (ubicacion a, texto a)) alertas_esperadas\<rparr>"

definition mundo_tras_envio :: mundo where
  "mundo_tras_envio =
     \<lparr>alert_manager = \<lparr>last_alert_sent = Some 720000000, ultimas_alertas = alertas_esperadas\<rparr>,
      consultas = [ConsultaLatest None, ConsultaSpikes None],
      correos = [correo_esperado ''ana@cpd.example'', correo_esperado ''luis@cpd.example'']\<rparr>"


section \<open>Properties of the spike detector\<close>

subsection \<open>Grouping by location\<close>

text \<open>
  The association list built by \<open>agrupar\<close> has one entry per location, and the entry
  of a location holds its rows in the order of the query.
\<close>

lemma map_of_setdefault_append:
  "map_of (setdefault_append datos loc r) =
     (map_of datos)(loc \<mapsto> (case map_of datos loc of None \<Rightarrow> [r] | Some v \<Rightarrow> v @ [r]))"
  by (induction datos loc r rule: setdefault_append.induct) (auto simp: fun_eq_iff)

lemma keys_setdefault_append:
  "map fst (setdefault_append datos loc r) =
     (if loc \<in> set (map fst datos) then map fst datos else map fst datos @ [loc])"
  by (induction datos loc r rule: setdefault_append.induct) auto

lemma distinct_setdefault_append:
  "distinct (map fst datos) \<Longrightarrow> distinct (map fst (setdefault_append datos loc r))"
  by (simp add: keys_setdefault_append)

lemma agrupar_snoc:
  "agrupar (rows @ [r]) = setdefault_append (agrupar rows) (ubicacion r) r"
  by (simp add: agrupar_def)

lemma distinct_agrupar: "distinct (map fst (agrupar rows))"
proof (induction rows rule: rev_induct)
  case Nil
  show ?case by (simp add: agrupar_def)
next
  case (snoc r rows)
  then show ?case by (simp only: agrupar_snoc distinct_setdefault_append)
qed

lemma map_of_agrupar:
  "map_of (agrupar rows) u =
     (if u \<in> ubicacion ` set rows then Some (filter (\<lambda>r. ubicacion r = u) rows) else None)"
proof (induction rows rule: rev_induct)
  case Nil
  show ?case by (simp add: agrupar_def)
next
  case (snoc r rows)
  show ?case
  proof (cases "u = ubicacion r")
    case True
    have "u \<notin> ubicacion ` set rows \<Longrightarrow> filter (\<lambda>x. ubicacion x = u) rows = []"
      by (auto simp: filter_empty_conv)
    with True snoc show ?thesis
      by (simp add: agrupar_snoc map_of_setdefault_append)
  next
    case False
    with snoc show ?thesis
      by (simp add: agrupar_snoc map_of_setdefault_append)
  qed
qed

subsection \<open>One location\<close>

lemma clasificar_ubicacion: "a \<in> set (clasificar u dt dm) \<Longrightarrow> ubicacion a = u"
  by (auto simp: clasificar_def split: if_splits)

lemma clasificar_length: "length (clasificar u dt dm) \<le> Suc 0"
  by (simp add: clasificar_def)

lemma clasificar_nivel:
  "a \<in> set (clasificar u dt dm) \<Longrightarrow> nivel a \<in> {''roja'', ''amarilla'', ''azul''}"
  by (auto simp: clasificar_def split: if_splits)

lemma procesar_ubicacion: "procesar u g = Inr n \<Longrightarrow> a \<in> set n \<Longrightarrow> ubicacion a = u"
  by (auto simp: procesar_def Let_def clasificar_ubicacion split: if_splits option.splits)

lemma procesar_length: "procesar u g = Inr n \<Longrightarrow> length n \<le> 1"
  by (auto simp: procesar_def Let_def clasificar_length split: if_splits option.splits)

lemma procesar_nivel:
  "procesar u g = Inr n \<Longrightarrow> a \<in> set n \<Longrightarrow> nivel a \<in> {''roja'', ''amarilla'', ''azul''}"
  by (auto simp: procesar_def Let_def split: if_splits option.splits dest: clasificar_nivel)

lemma procesar_clasifica:
  assumes "2 \<le> length g"
    and "buscar_anterior (sort_key fecha_hora g) = Some anterior"
    and "temperatura (last (sort_key fecha_hora g)) = Some tu"
    and "temperatura anterior = Some ta"
  shows "procesar u g = Inr (clasificar u (tu - ta) (delta_minutos (last (sort_key fecha_hora g)) anterior))"
  using assms by (simp add: procesar_def Let_def)

lemma niveles_clasificar:
  "map nivel (clasificar u dt dm) =
     (if dm \<le> 0 \<or> dm > 20 then []
      else if dt \<ge> 4 \<and> dm \<le> 10 then [''roja'']
      else if dt \<ge> 5 / 2 \<and> dm \<le> 10 then [''amarilla'']
      else if dt \<le> - 5 \<and> dm \<le> 15 then [''azul'']
      else [])"
  by (simp add: clasificar_def)

lemma find_Some_in_set: "find P xs = Some x \<Longrightarrow> x \<in> set xs \<and> P x"
  by (induction xs) (auto split: if_splits)

lemma buscar_anterior_Some:
  assumes "buscar_anterior ls = Some x"
  shows "x \<in> set ls \<and> temperatura x \<noteq> None"
proof -
  from assms have f: "find (\<lambda>r. temperatura r \<noteq> None) (rev (butlast ls)) = Some x"
    by (simp add: buscar_anterior_def)
  from find_Some_in_set[OF f] have "x \<in> set (butlast ls)" and t: "temperatura x \<noteq> None"
    by simp_all
  then have "x \<in> set ls" by (simp add: in_set_butlastD)
  with t show ?thesis by simp
qed

lemma procesar_total:
  assumes "\<forall>r \<in> set g. temperatura r \<noteq> None"
  shows "\<exists>n. procesar u g = Inr n"
proof (cases "length g < 2")
  case True
  then show ?thesis by (simp add: procesar_def)
next
  case False
  let ?ls = "sort_key fecha_hora g"
  from False have "?ls \<noteq> []"
    by (metis length_sort list.size(3) zero_less_numeral)
  then have "last ?ls \<in> set ?ls" by (rule last_in_set)
  with assms obtain tu where tu: "temperatura (last ?ls) = Some tu"
    by auto
  show ?thesis
  proof (cases "buscar_anterior ?ls")
    case None
    with False show ?thesis by (simp add: procesar_def)
  next
    case (Some x)
    from buscar_anterior_Some[OF Some] obtain ta where "temperatura x = Some ta"
      by auto
    with False Some tu show ?thesis by (simp add: procesar_def)
  qed
qed

subsection \<open>The loop over the locations\<close>

lemma recorrer_filter:
  "recorrer datos acc = Inr out \<Longrightarrow> distinct (map fst datos) \<Longrightarrow>
   \<exists>n. (case map_of datos u of None \<Rightarrow> Inr [] | Some g \<Rightarrow> procesar u g) = Inr n \<and>
       filter (\<lambda>a. ubicacion a = u) out = filter (\<lambda>a. ubicacion a = u) acc @ n"
proof (induction datos acc rule: recorrer.induct)
  case (1 acc)
  then show ?case by simp
next
  case (2 k g datos acc)
  from "2.prems"(1) obtain nuevas where
    p: "procesar k g = Inr nuevas" and r: "recorrer datos (acc @ nuevas) = Inr out"
    by (auto split: sum.splits)
  from "2.prems"(2) have d: "distinct (map fst datos)" and k: "k \<notin> fst ` set datos"
    by auto
  from "2.IH"[OF p r d] obtain n where
    n: "(case map_of datos u of None \<Rightarrow> Inr [] | Some g \<Rightarrow> procesar u g) = Inr n"
    and f: "filter (\<lambda>a. ubicacion a = u) out = filter (\<lambda>a. ubicacion a = u) (acc @ nuevas) @ n"
    by blast
  show ?case
  proof (cases "u = k")
    case True
    with k have "map_of datos u = None"
      by (simp add: map_of_eq_None_iff)
    with n have "n = []" by simp
    moreover have "filter (\<lambda>a. ubicacion a = u) nuevas = nuevas"
      using procesar_ubicacion[OF p] True by (simp add: filter_id_conv)
    ultimately show ?thesis using f p True by simp
  next
    case False
    have "filter (\<lambda>a. ubicacion a = u) nuevas = []"
      using procesar_ubicacion[OF p] False by (auto simp: filter_empty_conv)
    then show ?thesis using f n False by simp
  qed
qed

lemma recorrer_set:
  "recorrer datos acc = Inr out \<Longrightarrow> a \<in> set out \<Longrightarrow>
   a \<in> set acc \<or> (\<exists>(u, g) \<in> set datos. \<exists>n. procesar u g = Inr n \<and> a \<in> set n)"
proof (induction datos acc rule: recorrer.induct)
  case (1 acc)
  then show ?case by simp
next
  case (2 k g datos acc)
  from "2.prems"(1) obtain nuevas where
    p: "procesar k g = Inr nuevas" and r: "recorrer datos (acc @ nuevas) = Inr out"
    by (auto split: sum.splits)
  from "2.IH"[OF p r "2.prems"(2)] p show ?case by auto
qed

lemma recorrer_total:
  "\<forall>(u, g) \<in> set datos. \<exists>n. procesar u g = Inr n \<Longrightarrow> \<exists>out. recorrer datos acc = Inr out"
  by (induction datos acc rule: recorrer.induct) (auto split: sum.splits)

subsection \<open>The detector as a whole\<close>

lemma detect_fst:
  "fst (detect_temperature_spikes env location w) =
     (case spike_rows env (filtro_spikes location) of Inl e \<Rightarrow> Inl e | Inr rows \<Rightarrow> spikes_de_rows rows)"
  by (simp add: detect_temperature_spikes_def Let_def split: sum.splits)

lemma prioridad_get_simps:
  "prioridad_get d ''roja'' = 0" "prioridad_get d ''amarilla'' = 1" "prioridad_get d ''azul'' = 2"
  by (simp_all add: prioridad_get_def prioridad_def)

lemma sort_key_short: "length xs \<le> 1 \<Longrightarrow> sort_key f xs = xs"
  by (cases xs) (auto simp: le_Suc_eq)

lemma spikes_de_rows_filter:
  assumes "spikes_de_rows rows = Inr out"
  shows "\<exists>n. procesar u (filter (\<lambda>r. ubicacion r = u) rows) = Inr n \<and>
             filter (\<lambda>a. ubicacion a = u) out = n"
proof (cases "rows = []")
  case True
  with assms show ?thesis by (simp add: spikes_de_rows_def procesar_def)
next
  case False
  with assms obtain alertas where
    r: "recorrer (agrupar rows) [] = Inr alertas" and
    o: "out = sort_key (\<lambda>x. prioridad_get 9 (nivel x)) alertas"
    by (auto simp: spikes_de_rows_def split: sum.splits)
  from recorrer_filter[OF r distinct_agrupar, of u] obtain n where
    n: "(case map_of (agrupar rows) u of None \<Rightarrow> Inr [] | Some g \<Rightarrow> procesar u g) = Inr n"
    and f: "filter (\<lambda>a. ubicacion a = u) alertas = n"
    by auto
  have p: "procesar u (filter (\<lambda>r. ubicacion r = u) rows) = Inr n"
  proof (cases "u \<in> ubicacion ` set rows")
    case True
    with n show ?thesis by (simp add: map_of_agrupar)
  next
    case False
    then have "filter (\<lambda>r. ubicacion r = u) rows = []"
      by (auto simp: filter_empty_conv)
    with n False show ?thesis by (simp add: map_of_agrupar procesar_def)
  qed
  have "length n \<le> 1" using procesar_length[OF p] .
  then have "filter (\<lambda>a. ubicacion a = u) out = n"
    using f o by (simp add: filter_sort sort_key_short)
  with p show ?thesis by blast
qed

lemma spikes_de_rows_niveles:
  assumes "spikes_de_rows rows = Inr out" "a \<in> set out"
  shows "nivel a \<in> {''roja'', ''amarilla'', ''azul''}"
proof (cases "rows = []")
  case True
  with assms show ?thesis by (simp add: spikes_de_rows_def)
next
  case False
  with assms obtain alertas where
    r: "recorrer (agrupar rows) [] = Inr alertas" and
    o: "out = sort_key (\<lambda>x. prioridad_get 9 (nivel x)) alertas"
    by (auto simp: spikes_de_rows_def split: sum.splits)
  from o assms(2) have "a \<in> set alertas" by simp
  from recorrer_set[OF r this] procesar_nivel show ?thesis by fastforce
qed

lemma spikes_de_rows_sorted:
  assumes "spikes_de_rows rows = Inr out"
  shows "sorted (map (\<lambda>x. prioridad_get 9 (nivel x)) out)"
  using assms by (auto simp: spikes_de_rows_def split: if_splits sum.splits)

subsection \<open>The example deployment\<close>

lemmas spike_defs = spikes_de_rows_def agrupar_def procesar_def buscar_anterior_def
  clasificar_def delta_minutos_def prioridad_get_def prioridad_def

lemma grupo_rack_a:
  "sort_key fecha_hora (filter (\<lambda>r. ubicacion r = ''rack-a'') filas_spikes) =
     [fila ''rack-a'' (Some 20) 0, fila ''rack-a'' (Some (49 / 2)) 8]"
  by (simp add: filas_spikes_def fila_def)

lemma spikes_ejemplo:
  "spikes_de_rows filas_spikes =
     Inr [\<lparr>ubicacion = ''rack-a'', nivel = ''roja'', texto = SubidaCritica ''rack-a'' (9 / 2) 8\<rparr>,
          \<lparr>ubicacion = ''rack-c'', nivel = ''amarilla'', texto = SubidaRapida ''rack-c'' (27 / 10) 8\<rparr>,
          \<lparr>ubicacion = ''rack-b'', nivel = ''azul'', texto = BajadaBrusca ''rack-b'' (- (11 / 2)) 12\<rparr>]"
  by (simp add: spike_defs filas_spikes_def fila_def)

lemma detect_ejemplo:
  "fst (detect_temperature_spikes (entorno_ejemplo m) location w) =
     Inr [\<lparr>ubicacion = ''rack-a'', nivel = ''roja'', texto = SubidaCritica ''rack-a'' (9 / 2) 8\<rparr>,
          \<lparr>ubicacion = ''rack-c'', nivel = ''amarilla'', texto = SubidaRapida ''rack-c'' (27 / 10) 8\<rparr>,
          \<lparr>ubicacion = ''rack-b'', nivel = ''azul'', texto = BajadaBrusca ''rack-b'' (- (11 / 2)) 12\<rparr>]"
  by (simp add: detect_fst entorno_ejemplo_def spikes_ejemplo)

lemma detect_ejemplo_esperados:
  "fst (detect_temperature_spikes (entorno_ejemplo m) location w) = Inr spikes_esperados"
  by (simp add: detect_ejemplo spikes_esperados_def)


section \<open>Claims about the spike detector\<close>

text \<open>
  C1. Take a location of the window with at least two readings, let \<open>grupo\<close> be its rows
  sorted by time, and let the backward scan find a reference with a temperature. With
  \<open>delta_temp\<close> and \<open>delta_min\<close> the differences between the last row and the
  reference, the alerts of that location in the result of the detector are: none when
  \<open>delta_min \<le> 0\<close> or \<open>delta_min > 20\<close>; otherwise one \<open>roja\<close> alert when
  \<open>delta_temp \<ge> 4.0\<close> and \<open>delta_min \<le> 10\<close>; else one \<open>amarilla\<close> alert when
  \<open>delta_temp \<ge> 2.5\<close> and \<open>delta_min \<le> 10\<close>; else one \<open>azul\<close> alert when
  \<open>delta_temp \<le> -5.0\<close> and \<open>delta_min \<le> 15\<close>; else none.
\<close>

theorem spike_rule_order:
  assumes det: "fst (detect_temperature_spikes env location w) = Inr alertas"
    and rows: "spike_rows env (filtro_spikes location) = Inr rows"
    and grupo: "grupo = sort_key fecha_hora (filter (\<lambda>r. ubicacion r = u) rows)"
    and len: "2 \<le> length grupo"
    and ant: "buscar_anterior grupo = Some anterior"
    and tu: "temperatura (last grupo) = Some tu"
    and ta: "temperatura anterior = Some ta"
    and dt: "delta_temp = tu - ta"
    and dm: "delta_min = delta_minutos (last grupo) anterior"
  shows "map nivel (filter (\<lambda>a. ubicacion a = u) alertas) =
     (if delta_min \<le> 0 \<or> delta_min > 20 then []
      else if delta_temp \<ge> 4 \<and> delta_min \<le> 10 then [''roja'']
      else if delta_temp \<ge> 5 / 2 \<and> delta_min \<le> 10 then [''amarilla'']
      else if delta_temp \<le> - 5 \<and> delta_min \<le> 15 then [''azul'']
      else [])"
proof -
  from det rows have s: "spikes_de_rows rows = Inr alertas"
    by (simp add: detect_fst)
  from spikes_de_rows_filter[OF s, of u] obtain n where
    p: "procesar u (filter (\<lambda>r. ubicacion r = u) rows) = Inr n"
    and f: "filter (\<lambda>a. ubicacion a = u) alertas = n"
    by blast
  from len grupo have l: "2 \<le> length (filter (\<lambda>r. ubicacion r = u) rows)"
    by simp
  from procesar_clasifica[OF l ant[unfolded grupo] tu[unfolded grupo] ta, of u] p dt dm grupo
  have "n = clasificar u delta_temp delta_min" by simp
  with f show ?thesis by (simp only: niveles_clasificar)
qed

theorem spike_rule_order_witness:
  "fst (detect_temperature_spikes (entorno_ejemplo 12) None mundo_inicial) =
     Inr [\<lparr>ubicacion = ''rack-a'', nivel = ''roja'', texto = SubidaCritica ''rack-a'' (9 / 2) 8\<rparr>,
          \<lparr>ubicacion = ''rack-c'', nivel = ''amarilla'', texto = SubidaRapida ''rack-c'' (27 / 10) 8\<rparr>,
          \<lparr>ubicacion = ''rack-b'', nivel = ''azul'', texto = BajadaBrusca ''rack-b'' (- (11 / 2)) 12\<rparr>]
   \<and> spike_rows (entorno_ejemplo 12) (filtro_spikes None) = Inr filas_spikes
   \<and> 2 \<le> length (sort_key fecha_hora (filter (\<lambda>r. ubicacion r = ''rack-a'') filas_spikes))
   \<and> buscar_anterior (sort_key fecha_hora (filter (\<lambda>r. ubicacion r = ''rack-a'') filas_spikes))
       = Some (fila ''rack-a'' (Some 20) 0)
   \<and> temperatura (last (sort_key fecha_hora (filter (\<lambda>r. ubicacion r = ''rack-a'') filas_spikes)))
       = Some (49 / 2)
   \<and> temperatura (fila ''rack-a'' (Some 20) 0) = Some 20
   \<and> delta_minutos (last (sort_key fecha_hora (filter (\<lambda>r. ubicacion r = ''rack-a'') filas_spikes)))
        (fila ''rack-a'' (Some 20) 0) = 8
   \<and> map nivel (filter (\<lambda>a. ubicacion a = ''rack-a'')
        [\<lparr>ubicacion = ''rack-a'', nivel = ''roja'', texto = SubidaCritica ''rack-a'' (9 / 2) 8\<rparr>,
         \<lparr>ubicacion = ''rack-c'', nivel = ''amarilla'', texto = SubidaRapida ''rack-c'' (27 / 10) 8\<rparr>,
         \<lparr>ubicacion = ''rack-b'', nivel = ''azul'', texto = BajadaBrusca ''rack-b'' (- (11 / 2)) 12\<rparr>])
       = [''roja'']"
proof -
  let ?g = "sort_key fecha_hora (filter (\<lambda>r. ubicacion r = ''rack-a'') filas_spikes)"
  have rows: "spike_rows (entorno_ejemplo 12) (filtro_spikes None) = Inr filas_spikes"
    by (simp add: entorno_ejemplo_def)
  have det: "fst (detect_temperature_spikes (entorno_ejemplo 12) None mundo_inicial) =
     Inr [\<lparr>ubicacion = ''rack-a'', nivel = ''roja'', texto = SubidaCritica ''rack-a'' (9 / 2) 8\<rparr>,
          \<lparr>ubicacion = ''rack-c'', nivel = ''amarilla'', texto = SubidaRapida ''rack-c'' (27 / 10) 8\<rparr>,
          \<lparr>ubicacion = ''rack-b'', nivel = ''azul'', texto = BajadaBrusca ''rack-b'' (- (11 / 2)) 12\<rparr>]"
    by (simp add: detect_fst rows spikes_ejemplo)
  have len: "2 \<le> length ?g" by (simp add: grupo_rack_a)
  have ant: "buscar_anterior ?g = Some (fila ''rack-a'' (Some 20) 0)"
    by (simp add: grupo_rack_a buscar_anterior_def fila_def)
  have tu: "temperatura (last ?g) = Some (49 / 2)"
    by (simp add: grupo_rack_a fila_def)
  have ta: "temperatura (fila ''rack-a'' (Some 20) 0) = Some 20"
    by (simp add: fila_def)
  have dm: "delta_minutos (last ?g) (fila ''rack-a'' (Some 20) 0) = 8"
    by (simp add: grupo_rack_a fila_def delta_minutos_def)
  from spike_rule_order[OF det rows refl len ant tu ta refl refl] dm
  show ?thesis using det rows len ant tu ta by simp
qed

text \<open>
  C9. In the result of one call of the detector at most one alert carries a given location,
  and when the window is empty the result is the empty list. The detector returns a list
  (it raises nothing) whenever every row of the window has a temperature, which the
  query guarantees.
\<close>

theorem spikes_at_most_one_per_location:
  "(spike_rows env (filtro_spikes location) = Inr [] \<longrightarrow>
      fst (detect_temperature_spikes env location w) = Inr [])
   \<and> (fst (detect_temperature_spikes env location w) = Inr alertas \<longrightarrow>
        length (filter (\<lambda>a. ubicacion a = u) alertas) \<le> 1)
   \<and> (spike_rows env (filtro_spikes location) = Inr rows \<and> (\<forall>r \<in> set rows. temperatura r \<noteq> None) \<longrightarrow>
        (\<exists>out. fst (detect_temperature_spikes env location w) = Inr out))"
proof (intro conjI impI)
  assume "spike_rows env (filtro_spikes location) = Inr []"
  then show "fst (detect_temperature_spikes env location w) = Inr []"
    by (simp add: detect_fst spikes_de_rows_def)
next
  assume det: "fst (detect_temperature_spikes env location w) = Inr alertas"
  then obtain rows where s: "spikes_de_rows rows = Inr alertas"
    by (auto simp: detect_fst split: sum.splits)
  from spikes_de_rows_filter[OF s, of u] procesar_length
  show "length (filter (\<lambda>a. ubicacion a = u) alertas) \<le> 1"
    by auto
next
  assume a: "spike_rows env (filtro_spikes location) = Inr rows \<and> (\<forall>r \<in> set rows. temperatura r \<noteq> None)"
  have "\<exists>n. procesar k g = Inr n" if "set g \<subseteq> set rows" for k g
    using a that by (intro procesar_total) auto
  moreover have "set g \<subseteq> set rows" if "(k, g) \<in> set (agrupar rows)" for k g
  proof -
    from that distinct_agrupar have "map_of (agrupar rows) k = Some g"
      by simp
    then show ?thesis by (auto simp: map_of_agrupar split: if_splits)
  qed
  ultimately have "\<forall>(k, g) \<in> set (agrupar rows). \<exists>n. procesar k g = Inr n"
    by blast
  from recorrer_total[OF this, of "[]"] a
  show "\<exists>out. fst (detect_temperature_spikes env location w) = Inr out"
    by (auto simp: detect_fst spikes_de_rows_def)
qed

theorem spikes_at_most_one_per_location_witness:
  "spike_rows (entorno_tranquilo 12) (filtro_spikes None) = Inr []
   \<and> fst (detect_temperature_spikes (entorno_tranquilo 12) None mundo_inicial) = Inr []
   \<and> fst (detect_temperature_spikes (entorno_ejemplo 12) None mundo_inicial) = Inr spikes_esperados
   \<and> length (filter (\<lambda>a. ubicacion a = ''rack-a'') spikes_esperados) \<le> 1
   \<and> spike_rows (entorno_ejemplo 12) (filtro_spikes None) = Inr filas_spikes
   \<and> list_all (\<lambda>r. temperatura r \<noteq> None) filas_spikes
   \<and> (\<exists>out. fst (detect_temperature_spikes (entorno_ejemplo 12) None mundo_inicial) = Inr out)"
proof -
  have h1: "spike_rows (entorno_tranquilo 12) (filtro_spikes None) = Inr []"
    by (simp add: entorno_tranquilo_def entorno_ejemplo_def)
  have h2: "fst (detect_temperature_spikes (entorno_ejemplo 12) None mundo_inicial) = Inr spikes_esperados"
    by (rule detect_ejemplo_esperados)
  have h3: "spike_rows (entorno_ejemplo 12) (filtro_spikes None) = Inr filas_spikes"
    by (simp add: entorno_ejemplo_def)
  have h4: "list_all (\<lambda>r. temperatura r \<noteq> None) filas_spikes"
    by (simp add: filas_spikes_def fila_def del: not_None_eq)
  have c1: "fst (detect_temperature_spikes (entorno_tranquilo 12) None mundo_inicial) = Inr []"
    using spikes_at_most_one_per_location[of "entorno_tranquilo 12" None mundo_inicial] h1
    by blast
  have c2: "length (filter (\<lambda>a. ubicacion a = ''rack-a'') spikes_esperados) \<le> 1"
    using spikes_at_most_one_per_location[of "entorno_ejemplo 12" None mundo_inicial spikes_esperados "''rack-a''"] h2
    by blast
  have c3: "\<exists>out. fst (detect_temperature_spikes (entorno_ejemplo 12) None mundo_inicial) = Inr out"
  proof -
    from h4 have "\<forall>r \<in> set filas_spikes. temperatura r \<noteq> None"
      by (simp only: list_all_iff)
    with spikes_at_most_one_per_location[of "entorno_ejemplo 12" None mundo_inicial _ _ filas_spikes] h3
    show ?thesis by blast
  qed
  show ?thesis by (intro conjI) (fact+)
qed

text \<open>
  C10. The list returned by the detector is sorted by the priority of the level, before
  the aggregator sorts again: every level is one of the three, and of two alerts of the
  result the earlier one has the smaller or equal priority, so no \<open>amarilla\<close> alert
  stands before a \<open>roja\<close> one and no \<open>azul\<close> alert before a \<open>roja\<close> or an
  \<open>amarilla\<close> one.
\<close>

theorem spikes_sorted_by_priority:
  assumes "fst (detect_temperature_spikes env location w) = Inr alertas"
    and "i < j" and "j < length alertas"
  shows "nivel (alertas ! i) \<in> {''roja'', ''amarilla'', ''azul''}
       \<and> nivel (alertas ! j) \<in> {''roja'', ''amarilla'', ''azul''}
       \<and> prioridad_get 9 ''roja'' = 0 \<and> prioridad_get 9 ''amarilla'' = 1 \<and> prioridad_get 9 ''azul'' = 2
       \<and> prioridad_get 9 (nivel (alertas ! i)) \<le> prioridad_get 9 (nivel (alertas ! j))
       \<and> \<not> (nivel (alertas ! i) = ''amarilla'' \<and> nivel (alertas ! j) = ''roja'')
       \<and> \<not> (nivel (alertas ! i) = ''azul'' \<and> nivel (alertas ! j) = ''roja'')
       \<and> \<not> (nivel (alertas ! i) = ''azul'' \<and> nivel (alertas ! j) = ''amarilla'')"
proof -
  from assms(1) obtain rows where s: "spikes_de_rows rows = Inr alertas"
    by (auto simp: detect_fst split: sum.splits)
  from assms(2,3) have i: "alertas ! i \<in> set alertas" and j: "alertas ! j \<in> set alertas"
    by simp_all
  have ni: "nivel (alertas ! i) \<in> {''roja'', ''amarilla'', ''azul''}"
    using spikes_de_rows_niveles[OF s i] .
  have nj: "nivel (alertas ! j) \<in> {''roja'', ''amarilla'', ''azul''}"
    using spikes_de_rows_niveles[OF s j] .
  have "map (\<lambda>x. prioridad_get 9 (nivel x)) alertas ! i \<le> map (\<lambda>x. prioridad_get 9 (nivel x)) alertas ! j"
    using spikes_de_rows_sorted[OF s] assms(2,3) by (simp add: sorted_iff_nth_mono del: nth_map)
  with assms(2,3) have le: "prioridad_get 9 (nivel (alertas ! i)) \<le> prioridad_get 9 (nivel (alertas ! j))"
    by simp
  from ni nj le show ?thesis
    by (auto simp: prioridad_get_simps)
qed

theorem spikes_sorted_by_priority_witness:
  "fst (detect_temperature_spikes (entorno_ejemplo 12) None mundo_inicial) = Inr spikes_esperados
   \<and> (0::nat) < 1 \<and> 1 < length spikes_esperados
   \<and> nivel (spikes_esperados ! 0) = ''roja'' \<and> nivel (spikes_esperados ! 1) = ''amarilla''
   \<and> prioridad_get 9 (nivel (spikes_esperados ! 0)) \<le> prioridad_get 9 (nivel (spikes_esperados ! 1))"
proof -
  have h1: "fst (detect_temperature_spikes (entorno_ejemplo 12) None mundo_inicial) = Inr spikes_esperados"
    by (rule detect_ejemplo_esperados)
  have h2: "(0::nat) < 1" by simp
  have h3: "1 < length spikes_esperados" by (simp add: spikes_esperados_def)
  from spikes_sorted_by_priority[OF h1 h2 h3]
  have "prioridad_get 9 (nivel (spikes_esperados ! 0)) \<le> prioridad_get 9 (nivel (spikes_esperados ! 1))"
    by blast
  moreover have "nivel (spikes_esperados ! 0) = ''roja''" "nivel (spikes_esperados ! 1) = ''amarilla''"
    by (simp_all add: spikes_esperados_def)
  ultimately show ?thesis using h1 h2 h3 by (intro conjI)
qed


section \<open>Properties of the aggregator\<close>

lemma alertas_umbral_Inr_iff:
  "alertas_umbral th lecturas acc = Inr out \<longleftrightarrow>
     (\<exists>outs. list_all2 (\<lambda>r n. evaluar_umbral th r = Inr n) lecturas outs \<and> out = acc @ concat outs)"
proof (induction lecturas arbitrary: acc)
  case Nil
  show ?case by auto
next
  case (Cons r lecturas)
  show ?case
  proof (cases "evaluar_umbral th r")
    case (Inl e)
    then show ?thesis by (simp add: list_all2_Cons1)
  next
    case (Inr n)
    then show ?thesis by (auto simp: Cons.IH list_all2_Cons1)
  qed
qed

lemma alertas_umbral_split:
  assumes "alertas_umbral th (antes @ r # despues) [] = Inr out"
  shows "\<exists>a n d. alertas_umbral th antes [] = Inr a \<and> evaluar_umbral th r = Inr n
                 \<and> alertas_umbral th despues [] = Inr d \<and> out = a @ n @ d"
proof -
  let ?P = "\<lambda>r n. evaluar_umbral th r = Inr n"
  from assms obtain outs where
    l: "list_all2 ?P (antes @ r # despues) outs" and o: "out = concat outs"
    by (auto simp: alertas_umbral_Inr_iff)
  from l obtain us vs where
    outs: "outs = us @ vs" and us: "list_all2 ?P antes us" and vs: "list_all2 ?P (r # despues) vs"
    by (auto simp: list_all2_append1)
  from vs obtain n ds where
    v: "vs = n # ds" and n: "evaluar_umbral th r = Inr n" and ds: "list_all2 ?P despues ds"
    by (auto simp: list_all2_Cons1)
  have "alertas_umbral th antes [] = Inr (concat us)"
    using us by (auto simp: alertas_umbral_Inr_iff)
  moreover have "alertas_umbral th despues [] = Inr (concat ds)"
    using ds by (auto simp: alertas_umbral_Inr_iff)
  moreover have "out = concat us @ n @ concat ds"
    using o outs v by simp
  ultimately show ?thesis using n by blast
qed

lemma evaluar_umbral_None:
  "temperatura r = None \<Longrightarrow> evaluar_umbral th r = Inl (if th ''danger'' = None then KeyError else TypeError)"
  by (simp add: evaluar_umbral_def Let_def split: option.splits)

lemma alertas_umbral_None:
  assumes "r \<in> set lecturas" "temperatura r = None"
  shows "alertas_umbral th lecturas acc \<noteq> Inr out"
proof
  assume "alertas_umbral th lecturas acc = Inr out"
  then obtain outs where "list_all2 (\<lambda>r n. evaluar_umbral th r = Inr n) lecturas outs"
    by (auto simp: alertas_umbral_Inr_iff)
  with assms(1) obtain n where "evaluar_umbral th r = Inr n"
    by (auto simp: list_all2_conv_all_nth in_set_conv_nth)
  with evaluar_umbral_None[OF assms(2), of th] show False by simp
qed

lemma generar_alertas_fst:
  "fst (generar_alertas env location w) =
     (case parametros_json env of
        Inl e \<Rightarrow> Inl e
      | Inr config \<Rightarrow>
          (case thresholds config of
             None \<Rightarrow> Inl KeyError
           | Some th \<Rightarrow>
               (case latest_rows env location of
                  Inl e \<Rightarrow> Inl e
                | Inr lecturas \<Rightarrow>
                    (case alertas_umbral th lecturas [] of
                       Inl e \<Rightarrow> Inl e
                     | Inr alertas \<Rightarrow>
                         if detectar_spikes config = Some True then
                           (case spike_rows env (filtro_spikes location) of
                              Inl e \<Rightarrow> Inl e
                            | Inr rows \<Rightarrow>
                                (case spikes_de_rows rows of
                                   Inl e \<Rightarrow> Inl e
                                 | Inr spikes \<Rightarrow>
                                     Inr (sort_key (\<lambda>x. prioridad_get 99 (nivel x)) (alertas @ spikes))))
                         else Inr (sort_key (\<lambda>x. prioridad_get 99 (nivel x)) alertas)))))"
  by (simp add: generar_alertas_def get_latest_readings_def detect_temperature_spikes_def Let_def
      split: sum.splits option.splits prod.splits)

lemma generar_alertas_frame:
  "alert_manager (snd (generar_alertas env location w)) = alert_manager w
   \<and> correos (snd (generar_alertas env location w)) = correos w"
  by (simp add: generar_alertas_def get_latest_readings_def detect_temperature_spikes_def Let_def
      split: sum.splits option.splits prod.splits)

lemma generar_alertas_snd:
  "snd (generar_alertas env location w) =
     (case parametros_json env of
        Inl e \<Rightarrow> w
      | Inr config \<Rightarrow>
          (case thresholds config of
             None \<Rightarrow> w
           | Some th \<Rightarrow>
               (case latest_rows env location of
                  Inl e \<Rightarrow> w\<lparr>consultas := consultas w @ [ConsultaLatest location]\<rparr>
                | Inr lecturas \<Rightarrow>
                    (case alertas_umbral th lecturas [] of
                       Inl e \<Rightarrow> w\<lparr>consultas := consultas w @ [ConsultaLatest location]\<rparr>
                     | Inr alertas \<Rightarrow>
                         if detectar_spikes config = Some True then
                           w\<lparr>consultas := consultas w @ [ConsultaLatest location, ConsultaSpikes (filtro_spikes location)]\<rparr>
                         else w\<lparr>consultas := consultas w @ [ConsultaLatest location]\<rparr>))))"
  by (simp add: generar_alertas_def get_latest_readings_def detect_temperature_spikes_def Let_def
      split: sum.splits option.splits prod.splits)

lemma prioridad_get_otro:
  "n \<notin> {''roja'', ''amarilla'', ''azul''} \<Longrightarrow> prioridad_get d n = d"
  by (simp add: prioridad_get_def prioridad_def)

lemma prioridad_get_0: "prioridad_get 99 n = 0 \<longleftrightarrow> n = ''roja''"
  by (simp add: prioridad_get_def prioridad_def)

lemma generar_alertas_mismo_entorno:
  assumes "parametros_json env = parametros_json env'"
    and "latest_rows env = latest_rows env'"
    and "spike_rows env = spike_rows env'"
  shows "generar_alertas env location w = generar_alertas env' location w"
proof -
  have "fst (generar_alertas env location w) = fst (generar_alertas env' location w)"
    by (simp only: generar_alertas_fst assms)
  moreover have "snd (generar_alertas env location w) = snd (generar_alertas env' location w)"
    by (simp only: generar_alertas_snd assms)
  ultimately show ?thesis by (simp add: prod_eq_iff)
qed

subsection \<open>The example deployment\<close>

lemma umbral_ejemplo:
  "alertas_umbral [''warning'' \<mapsto> 22, ''danger'' \<mapsto> 24] filas_latest [] = Inr umbral_esperados"
  by (simp add: filas_latest_def fila_def evaluar_umbral_def Let_def umbral_esperados_def)

lemma generar_ejemplo:
  "fst (generar_alertas (entorno_ejemplo m) location w) = Inr alertas_esperadas"
  by (simp add: generar_alertas_fst entorno_ejemplo_def config_ejemplo_def umbral_ejemplo
      spikes_ejemplo prioridad_get_def prioridad_def umbral_esperados_def alertas_esperadas_def)

lemma generar_ejemplo_snd:
  "snd (generar_alertas (entorno_ejemplo m) location w) =
     w\<lparr>consultas := consultas w @ [ConsultaLatest location, ConsultaSpikes (filtro_spikes location)]\<rparr>"
  by (simp add: generar_alertas_snd entorno_ejemplo_def config_ejemplo_def umbral_ejemplo)

lemma generar_ejemplo_par:
  "generar_alertas (entorno_ejemplo m) location w =
     (Inr alertas_esperadas,
      w\<lparr>consultas := consultas w @ [ConsultaLatest location, ConsultaSpikes (filtro_spikes location)]\<rparr>)"
  using generar_ejemplo[of m location w] generar_ejemplo_snd[of m location w]
  by (simp add: prod_eq_iff)

lemma alertas_esperadas_no_vacia: "alertas_esperadas \<noteq> []"
  by (simp add: alertas_esperadas_def)


section \<open>Claims about the aggregator\<close>

text \<open>
  C3. For a reading with a temperature \<open>t\<close> and configured thresholds with
  \<open>danger > warning\<close>, the threshold evaluation of that reading yields exactly one
  \<open>roja\<close> alert when \<open>t \<ge> danger\<close>, exactly one \<open>amarilla\<close> alert when
  \<open>warning \<le> t < danger\<close>, and no alert when \<open>t < warning\<close>. In a run of the
  threshold loop over a list of readings that returns, that alert (or none) stands in
  the result between the alerts of the readings before and those of the readings after.
\<close>

theorem threshold_levels:
  assumes "th ''danger'' = Some danger" and "th ''warning'' = Some warning"
    and "danger > warning" and "temperatura r = Some t"
  shows "(t \<ge> danger \<longrightarrow>
            evaluar_umbral th r =
              Inr [\<lparr>ubicacion = ubicacion r, nivel = ''roja'', texto = TemperaturaCritica t (ubicacion r)\<rparr>])
       \<and> (warning \<le> t \<and> t < danger \<longrightarrow>
            evaluar_umbral th r =
              Inr [\<lparr>ubicacion = ubicacion r, nivel = ''amarilla'', texto = TemperaturaElevada t (ubicacion r)\<rparr>])
       \<and> (t < warning \<longrightarrow> evaluar_umbral th r = Inr [])
       \<and> (alertas_umbral th (antes @ r # despues) [] = Inr out \<longrightarrow>
            (\<exists>a d. alertas_umbral th antes [] = Inr a \<and> alertas_umbral th despues [] = Inr d
                  \<and> out = a @ (if t \<ge> danger then
                                  [\<lparr>ubicacion = ubicacion r, nivel = ''roja'', texto = TemperaturaCritica t (ubicacion r)\<rparr>]
                                else if t \<ge> warning then
                                  [\<lparr>ubicacion = ubicacion r, nivel = ''amarilla'', texto = TemperaturaElevada t (ubicacion r)\<rparr>]
                                else []) @ d))"
proof -
  have e: "evaluar_umbral th r =
     Inr (if t \<ge> danger then
            [\<lparr>ubicacion = ubicacion r, nivel = ''roja'', texto = TemperaturaCritica t (ubicacion r)\<rparr>]
          else if t \<ge> warning then
            [\<lparr>ubicacion = ubicacion r, nivel = ''amarilla'', texto = TemperaturaElevada t (ubicacion r)\<rparr>]
          else [])"
    using assms(1,2,4) by (simp add: evaluar_umbral_def Let_def)
  have c1: "t \<ge> danger \<longrightarrow> evaluar_umbral th r =
              Inr [\<lparr>ubicacion = ubicacion r, nivel = ''roja'', texto = TemperaturaCritica t (ubicacion r)\<rparr>]"
    by (simp add: e)
  have c2: "warning \<le> t \<and> t < danger \<longrightarrow> evaluar_umbral th r =
              Inr [\<lparr>ubicacion = ubicacion r, nivel = ''amarilla'', texto = TemperaturaElevada t (ubicacion r)\<rparr>]"
    by (simp add: e)
  have c3: "t < warning \<longrightarrow> evaluar_umbral th r = Inr []"
    using assms(3) by (simp add: e)
  have c4: "alertas_umbral th (antes @ r # despues) [] = Inr out \<longrightarrow>
            (\<exists>a d. alertas_umbral th antes [] = Inr a \<and> alertas_umbral th despues [] = Inr d
                  \<and> out = a @ (if t \<ge> danger then
                                  [\<lparr>ubicacion = ubicacion r, nivel = ''roja'', texto = TemperaturaCritica t (ubicacion r)\<rparr>]
                                else if t \<ge> warning then
                                  [\<lparr>ubicacion = ubicacion r, nivel = ''amarilla'', texto = TemperaturaElevada t (ubicacion r)\<rparr>]
                                else []) @ d)"
  proof
    assume "alertas_umbral th (antes @ r # despues) [] = Inr out"
    from alertas_umbral_split[OF this] obtain a n d where
      "alertas_umbral th antes [] = Inr a" "evaluar_umbral th r = Inr n"
      "alertas_umbral th despues [] = Inr d" "out = a @ n @ d"
      by blast
    with e show "\<exists>a d. alertas_umbral th antes [] = Inr a \<and> alertas_umbral th despues [] = Inr d
                  \<and> out = a @ (if t \<ge> danger then
                                  [\<lparr>ubicacion = ubicacion r, nivel = ''roja'', texto = TemperaturaCritica t (ubicacion r)\<rparr>]
                                else if t \<ge> warning then
                                  [\<lparr>ubicacion = ubicacion r, nivel = ''amarilla'', texto = TemperaturaElevada t (ubicacion r)\<rparr>]
                                else []) @ d"
      by auto
  qed
  from c1 c2 c3 c4 show ?thesis by (intro conjI)
qed

theorem threshold_levels_witness:
  "[''warning'' \<mapsto> 22, ''danger'' \<mapsto> (24::rat)] ''danger'' = Some 24
   \<and> [''warning'' \<mapsto> 22, ''danger'' \<mapsto> (24::rat)] ''warning'' = Some 22
   \<and> (24::rat) > 22
   \<and> temperatura (fila ''rack-a'' (Some (49 / 2)) 8) = Some (49 / 2) \<and> (49 / 2 :: rat) \<ge> 24
   \<and> evaluar_umbral [''warning'' \<mapsto> 22, ''danger'' \<mapsto> 24] (fila ''rack-a'' (Some (49 / 2)) 8) =
        Inr [\<lparr>ubicacion = ''rack-a'', nivel = ''roja'', texto = TemperaturaCritica (49 / 2) ''rack-a''\<rparr>]
   \<and> temperatura (fila ''rack-c'' (Some (227 / 10)) 8) = Some (227 / 10)
   \<and> (22::rat) \<le> 227 / 10 \<and> (227 / 10 :: rat) < 24
   \<and> evaluar_umbral [''warning'' \<mapsto> 22, ''danger'' \<mapsto> 24] (fila ''rack-c'' (Some (227 / 10)) 8) =
        Inr [\<lparr>ubicacion = ''rack-c'', nivel = ''amarilla'', texto = TemperaturaElevada (227 / 10) ''rack-c''\<rparr>]
   \<and> temperatura (fila ''rack-b'' (Some (39 / 2)) 12) = Some (39 / 2) \<and> (39 / 2 :: rat) < 22
   \<and> evaluar_umbral [''warning'' \<mapsto> 22, ''danger'' \<mapsto> 24] (fila ''rack-b'' (Some (39 / 2)) 12) = Inr []
   \<and> alertas_umbral [''warning'' \<mapsto> 22, ''danger'' \<mapsto> 24]
        ([] @ fila ''rack-a'' (Some (49 / 2)) 8 #
           [fila ''rack-c'' (Some (227 / 10)) 8, fila ''rack-b'' (Some (39 / 2)) 12]) [] = Inr umbral_esperados
   \<and> (\<exists>a d. alertas_umbral [''warning'' \<mapsto> 22, ''danger'' \<mapsto> 24] [] [] = Inr a
           \<and> alertas_umbral [''warning'' \<mapsto> 22, ''danger'' \<mapsto> 24]
                [fila ''rack-c'' (Some (227 / 10)) 8, fila ''rack-b'' (Some (39 / 2)) 12] [] = Inr d
           \<and> umbral_esperados =
               a @ [\<lparr>ubicacion = ''rack-a'', nivel = ''roja'', texto = TemperaturaCritica (49 / 2) ''rack-a''\<rparr>] @ d)"
proof -
  let ?th = "[''warning'' \<mapsto> 22, ''danger'' \<mapsto> (24::rat)]"
  have d: "?th ''danger'' = Some 24" and w: "?th ''warning'' = Some 22" and o: "(24::rat) > 22"
    by simp_all
  have ta: "temperatura (fila ''rack-a'' (Some (49 / 2)) 8) = Some (49 / 2)"
    and tc: "temperatura (fila ''rack-c'' (Some (227 / 10)) 8) = Some (227 / 10)"
    and tb: "temperatura (fila ''rack-b'' (Some (39 / 2)) 12) = Some (39 / 2)"
    by (simp_all add: fila_def)
  have ua: "ubicacion (fila ''rack-a'' (Some (49 / 2)) 8) = ''rack-a''"
    and uc: "ubicacion (fila ''rack-c'' (Some (227 / 10)) 8) = ''rack-c''"
    by (simp_all add: fila_def)
  have ca: "(49 / 2 :: rat) \<ge> 24" and cc: "(22::rat) \<le> 227 / 10" "(227 / 10 :: rat) < 24"
    and cb: "(39 / 2 :: rat) < 22"
    by simp_all
  from threshold_levels[OF d w o ta] ca
  have "evaluar_umbral ?th (fila ''rack-a'' (Some (49 / 2)) 8) =
        Inr [\<lparr>ubicacion = ubicacion (fila ''rack-a'' (Some (49 / 2)) 8), nivel = ''roja'',
              texto = TemperaturaCritica (49 / 2) (ubicacion (fila ''rack-a'' (Some (49 / 2)) 8))\<rparr>]"
    by blast
  then have a: "evaluar_umbral ?th (fila ''rack-a'' (Some (49 / 2)) 8) =
        Inr [\<lparr>ubicacion = ''rack-a'', nivel = ''roja'', texto = TemperaturaCritica (49 / 2) ''rack-a''\<rparr>]"
    by (simp only: ua)
  from threshold_levels[OF d w o tc] cc
  have "evaluar_umbral ?th (fila ''rack-c'' (Some (227 / 10)) 8) =
        Inr [\<lparr>ubicacion = ubicacion (fila ''rack-c'' (Some (227 / 10)) 8), nivel = ''amarilla'',
              texto = TemperaturaElevada (227 / 10) (ubicacion (fila ''rack-c'' (Some (227 / 10)) 8))\<rparr>]"
    by blast
  then have c: "evaluar_umbral ?th (fila ''rack-c'' (Some (227 / 10)) 8) =
        Inr [\<lparr>ubicacion = ''rack-c'', nivel = ''amarilla'', texto = TemperaturaElevada (227 / 10) ''rack-c''\<rparr>]"
    by (simp only: uc)
  from threshold_levels[OF d w o tb] cb
  have b: "evaluar_umbral ?th (fila ''rack-b'' (Some (39 / 2)) 12) = Inr []"
    by blast
  have l: "alertas_umbral ?th
        ([] @ fila ''rack-a'' (Some (49 / 2)) 8 #
           [fila ''rack-c'' (Some (227 / 10)) 8, fila ''rack-b'' (Some (39 / 2)) 12]) [] = Inr umbral_esperados"
    using umbral_ejemplo by (simp only: filas_latest_def append_Nil)
  note t = threshold_levels[OF d w o ta, of "[]"
      "[fila ''rack-c'' (Some (227 / 10)) 8, fila ''rack-b'' (Some (39 / 2)) 12]" umbral_esperados]
  from t[THEN conjunct2, THEN conjunct2, THEN conjunct2, THEN mp, OF l]
  have e: "\<exists>a d. alertas_umbral ?th [] [] = Inr a
           \<and> alertas_umbral ?th [fila ''rack-c'' (Some (227 / 10)) 8, fila ''rack-b'' (Some (39 / 2)) 12] [] = Inr d
           \<and> umbral_esperados =
               a @ [\<lparr>ubicacion = ''rack-a'', nivel = ''roja'', texto = TemperaturaCritica (49 / 2) ''rack-a''\<rparr>] @ d"
    by (simp only: ua ca if_True)
  show ?thesis by (intro conjI) (fact+)
qed

text \<open>
  C7. The result of the aggregator is the threshold alerts followed by the spike alerts
  (those of the detector when spike detection is enabled, none otherwise), sorted by the
  priority \<open>roja = 0\<close>, \<open>amarilla = 1\<close>, \<open>azul = 2\<close>, any other level \<open>99\<close>. The sort
  is stable: the alerts of one priority keep the order they had before the sort. Nothing
  is removed or merged (the result has the same alerts with the same multiplicities, so
  a threshold alert and a spike alert of one location are both kept), and every alert
  that stands before a \<open>roja\<close> alert is \<open>roja\<close> itself.
\<close>

theorem aggregator_stable_priority_sort:
  assumes out: "fst (generar_alertas env location w) = Inr out"
    and cfg: "parametros_json env = Inr cfg" and th: "thresholds cfg = Some th"
    and lect: "latest_rows env location = Inr lecturas"
    and umb: "alertas_umbral th lecturas [] = Inr umbral"
    and spk: "spikes = (if detectar_spikes cfg = Some True
                        then (case fst (detect_temperature_spikes env location w) of
                                Inr s \<Rightarrow> s | Inl e \<Rightarrow> [])
                        else [])"
  shows "mset out = mset (umbral @ spikes)
       \<and> sorted (map (\<lambda>x. prioridad_get 99 (nivel x)) out)
       \<and> (\<forall>k. filter (\<lambda>x. prioridad_get 99 (nivel x) = k) out
              = filter (\<lambda>x. prioridad_get 99 (nivel x) = k) (umbral @ spikes))
       \<and> prioridad_get 99 ''roja'' = 0 \<and> prioridad_get 99 ''amarilla'' = 1
       \<and> prioridad_get 99 ''azul'' = 2
       \<and> (\<forall>n. n \<notin> {''roja'', ''amarilla'', ''azul''} \<longrightarrow> prioridad_get 99 n = 99)
       \<and> (\<forall>i j. i < j \<and> j < length out \<and> nivel (out ! j) = ''roja'' \<longrightarrow> nivel (out ! i) = ''roja'')"
proof -
  have o: "out = sort_key (\<lambda>x. prioridad_get 99 (nivel x)) (umbral @ spikes)"
    using out cfg th lect umb spk
    by (auto simp: generar_alertas_fst detect_fst split: sum.splits if_splits)
  have s: "sorted (map (\<lambda>x. prioridad_get 99 (nivel x)) out)"
    by (simp add: o)
  have r: "nivel (out ! i) = ''roja''"
    if "i < j" "j < length out" "nivel (out ! j) = ''roja''" for i j
  proof -
    have "map (\<lambda>x. prioridad_get 99 (nivel x)) out ! i \<le> map (\<lambda>x. prioridad_get 99 (nivel x)) out ! j"
      using s that(1,2) by (simp add: sorted_iff_nth_mono del: nth_map)
    with that have "prioridad_get 99 (nivel (out ! i)) \<le> 0"
      by (simp add: prioridad_get_simps)
    then show ?thesis by (simp add: prioridad_get_0)
  qed
  have r': "\<forall>i j. i < j \<and> j < length out \<and> nivel (out ! j) = ''roja'' \<longrightarrow> nivel (out ! i) = ''roja''"
    using r by blast
  have m: "mset out = mset (umbral @ spikes)"
    by (simp add: o)
  have st: "\<forall>k. filter (\<lambda>x. prioridad_get 99 (nivel x) = k) out
              = filter (\<lambda>x. prioridad_get 99 (nivel x) = k) (umbral @ spikes)"
    by (simp only: o sort_key_stable) simp
  have p: "\<forall>n. n \<notin> {''roja'', ''amarilla'', ''azul''} \<longrightarrow> prioridad_get 99 n = 99"
    using prioridad_get_otro by blast
  have q: "prioridad_get 99 ''roja'' = 0 \<and> prioridad_get 99 ''amarilla'' = 1 \<and> prioridad_get 99 ''azul'' = 2"
    by (simp add: prioridad_get_simps)
  from m s st q p r' show ?thesis by blast
qed

theorem aggregator_stable_priority_sort_witness:
  "fst (generar_alertas (entorno_ejemplo 12) None mundo_inicial) = Inr alertas_esperadas
   \<and> parametros_json (entorno_ejemplo 12) = Inr config_ejemplo
   \<and> thresholds config_ejemplo = Some [''warning'' \<mapsto> 22, ''danger'' \<mapsto> 24]
   \<and> latest_rows (entorno_ejemplo 12) None = Inr filas_latest
   \<and> alertas_umbral [''warning'' \<mapsto> 22, ''danger'' \<mapsto> 24] filas_latest [] = Inr umbral_esperados
   \<and> detectar_spikes config_ejemplo = Some True
   \<and> fst (detect_temperature_spikes (entorno_ejemplo 12) None mundo_inicial) = Inr spikes_esperados
   \<and> mset alertas_esperadas = mset (umbral_esperados @ spikes_esperados)
   \<and> sorted (map (\<lambda>x. prioridad_get 99 (nivel x)) alertas_esperadas)
   \<and> filter (\<lambda>x. prioridad_get 99 (nivel x) = 0) alertas_esperadas
       = filter (\<lambda>x. prioridad_get 99 (nivel x) = 0) (umbral_esperados @ spikes_esperados)
   \<and> prioridad_get 99 ''verde'' = 99
   \<and> nivel (alertas_esperadas ! 1) = ''roja'' \<and> nivel (alertas_esperadas ! 0) = ''roja''"
proof -
  have h1: "fst (generar_alertas (entorno_ejemplo 12) None mundo_inicial) = Inr alertas_esperadas"
    by (rule generar_ejemplo)
  have h2: "parametros_json (entorno_ejemplo 12) = Inr config_ejemplo"
    by (simp add: entorno_ejemplo_def)
  have h3: "thresholds config_ejemplo = Some [''warning'' \<mapsto> 22, ''danger'' \<mapsto> 24]"
    by (simp add: config_ejemplo_def)
  have h4: "latest_rows (entorno_ejemplo 12) None = Inr filas_latest"
    by (simp add: entorno_ejemplo_def)
  have h5: "alertas_umbral [''warning'' \<mapsto> 22, ''danger'' \<mapsto> 24] filas_latest [] = Inr umbral_esperados"
    by (rule umbral_ejemplo)
  have h6: "detectar_spikes config_ejemplo = Some True"
    by (simp add: config_ejemplo_def)
  have h7: "fst (detect_temperature_spikes (entorno_ejemplo 12) None mundo_inicial) = Inr spikes_esperados"
    by (rule detect_ejemplo_esperados)
  have h8: "spikes_esperados = (if detectar_spikes config_ejemplo = Some True
                        then (case fst (detect_temperature_spikes (entorno_ejemplo 12) None mundo_inicial) of
                                Inr s \<Rightarrow> s | Inl e \<Rightarrow> [])
                        else [])"
    by (simp add: h6 h7)
  note t = aggregator_stable_priority_sort[OF h1 h2 h3 h4 h5 h8]
  note r1 = t[THEN conjunct2]
  note r2 = r1[THEN conjunct2]
  note r6 = r2[THEN conjunct2, THEN conjunct2, THEN conjunct2, THEN conjunct2]
  have c1: "mset alertas_esperadas = mset (umbral_esperados @ spikes_esperados)"
    by (rule t[THEN conjunct1])
  have c2: "sorted (map (\<lambda>x. prioridad_get 99 (nivel x)) alertas_esperadas)"
    by (rule r1[THEN conjunct1])
  have c3: "filter (\<lambda>x. prioridad_get 99 (nivel x) = 0) alertas_esperadas
       = filter (\<lambda>x. prioridad_get 99 (nivel x) = 0) (umbral_esperados @ spikes_esperados)"
    by (rule r2[THEN conjunct1, THEN spec])
  have v: "''verde'' \<notin> {''roja'', ''amarilla'', ''azul''}" by simp
  have c4: "prioridad_get 99 ''verde'' = 99"
    by (rule r6[THEN conjunct1, THEN spec, THEN mp, OF v])
  have l0: "(0::nat) < 1 \<and> 1 < length alertas_esperadas \<and> nivel (alertas_esperadas ! 1) = ''roja''"
    by (simp add: alertas_esperadas_def)
  have l1: "nivel (alertas_esperadas ! 1) = ''roja''"
    by (rule l0[THEN conjunct2, THEN conjunct2])
  have c5: "nivel (alertas_esperadas ! 0) = ''roja''"
    by (rule r6[THEN conjunct2, THEN spec, THEN spec, THEN mp, OF l0])
  show ?thesis by (intro conjI) (fact+)
qed

text \<open>
  C8. A call of the aggregator, with any location filter and in any state of the process,
  leaves the two attributes of the alert manager, \<open>last_alert_sent\<close> and
  \<open>ultimas_alertas\<close>, as they were. (The call does change the state of the process:
  it runs its queries.) The same holds of a call of the spike detector alone, which is
  what the endpoint \<open>/api/alerts\<close> of \<open>main.py\<close> runs.
\<close>

theorem aggregation_keeps_dispatch_state:
  "last_alert_sent (alert_manager (snd (generar_alertas env location w))) = last_alert_sent (alert_manager w)
   \<and> ultimas_alertas (alert_manager (snd (generar_alertas env location w))) = ultimas_alertas (alert_manager w)
   \<and> alert_manager (snd (detect_temperature_spikes env location w)) = alert_manager w"
proof -
  have "alert_manager (snd (detect_temperature_spikes env location w)) = alert_manager w"
    by (simp add: detect_temperature_spikes_def Let_def split: sum.splits)
  with generar_alertas_frame[of env location w] show ?thesis by simp
qed

theorem aggregation_keeps_dispatch_state_witness:
  "last_alert_sent (alert_manager (snd (generar_alertas (entorno_ejemplo 13) (Some ''rack-a'') mundo_tras_envio)))
     = Some 720000000
   \<and> ultimas_alertas (alert_manager (snd (generar_alertas (entorno_ejemplo 13) (Some ''rack-a'') mundo_tras_envio)))
     = alertas_esperadas
   \<and> consultas (snd (generar_alertas (entorno_ejemplo 13) (Some ''rack-a'') mundo_tras_envio))
     = [ConsultaLatest None, ConsultaSpikes None, ConsultaLatest (Some ''rack-a''), ConsultaSpikes (Some ''rack-a'')]"
proof -
  note t = aggregation_keeps_dispatch_state[of "entorno_ejemplo 13" "Some ''rack-a''" mundo_tras_envio]
  have m: "last_alert_sent (alert_manager mundo_tras_envio) = Some 720000000"
    "ultimas_alertas (alert_manager mundo_tras_envio) = alertas_esperadas"
    by (simp_all add: mundo_tras_envio_def)
  have c1: "last_alert_sent (alert_manager (snd (generar_alertas (entorno_ejemplo 13) (Some ''rack-a'') mundo_tras_envio)))
     = Some 720000000"
    using t[THEN conjunct1] by (simp only: m)
  have c2: "ultimas_alertas (alert_manager (snd (generar_alertas (entorno_ejemplo 13) (Some ''rack-a'') mundo_tras_envio)))
     = alertas_esperadas"
    using t[THEN conjunct2, THEN conjunct1] by (simp only: m)
  have c3: "consultas (snd (generar_alertas (entorno_ejemplo 13) (Some ''rack-a'') mundo_tras_envio))
     = [ConsultaLatest None, ConsultaSpikes None, ConsultaLatest (Some ''rack-a''), ConsultaSpikes (Some ''rack-a'')]"
    by (simp add: generar_ejemplo_snd mundo_tras_envio_def filtro_spikes_def)
  show ?thesis by (intro conjI) (fact+)
qed


text \<open>
  A latest reading without a temperature makes the whole call of the aggregator raise,
  whatever the other readings are.
\<close>

lemma generar_alertas_None:
  assumes "parametros_json env = Inr cfg" and "latest_rows env location = Inr lecturas"
    and "r \<in> set lecturas" and "temperatura r = None"
  shows "\<exists>e. fst (generar_alertas env location w) = Inl e"
proof (cases "thresholds cfg")
  case None
  with assms(1) show ?thesis by (simp add: generar_alertas_fst)
next
  case (Some th)
  from alertas_umbral_None[OF assms(3,4), of th "[]"]
  obtain e where "alertas_umbral th lecturas [] = Inl e"
    by (cases "alertas_umbral th lecturas []") auto
  with assms(1,2) Some show ?thesis by (simp add: generar_alertas_fst)
qed

text \<open>
  C6 does not hold of the code. The loop over the latest readings compares
  \<open>r["temperatura"]\<close> with the threshold without testing it for \<open>None\<close>, and the
  query of \<open>get_latest_readings\<close> does not exclude NULL temperatures (the spike query
  does, and the backward scan of the detector tests \<open>is not None\<close>). At a concrete
  input: the latest readings are one location at 19.5 degrees and one location whose
  temperature is NULL; the aggregator raises \<open>TypeError\<close> instead of returning the
  (empty) list of alerts.
\<close>

theorem null_temperature_raises_type_error:
  "latest_rows (entorno_sensor_averiado 12) None
     = Inr [fila ''rack-b'' (Some (39 / 2)) 12, fila ''rack-d'' None 12]
   \<and> fst (generar_alertas (entorno_sensor_averiado 12) None mundo_inicial) = Inl TypeError"
  by (simp add: generar_alertas_fst entorno_sensor_averiado_def entorno_ejemplo_def config_ejemplo_def
      fila_def evaluar_umbral_def Let_def)


section \<open>Properties of the mailer and of the scheduler\<close>

subsection \<open>The mailer\<close>

lemma EnviarCorreoSSL_snd:
  "snd (EnviarCorreoSSL env cred dest as html w) =
     w\<lparr>correos := correos w @ [\<lparr>destinatario = dest, asunto = as, mensaje = html\<rparr>]\<rparr>"
  by (simp add: EnviarCorreoSSL_def Let_def split: option.splits excepcion.splits)

lemma EnviarCorreoSSL_fst:
  "(\<exists>r. fst (EnviarCorreoSSL env cred dest as html w) = Inr r) \<longleftrightarrow> smtp env dest \<noteq> Some NoSMTP"
  by (auto simp: EnviarCorreoSSL_def Let_def split: option.splits excepcion.splits)

lemma enviar_a_todos_manager:
  "alert_manager (snd (enviar_a_todos env cred as html dests w)) = alert_manager w"
proof (induction dests arbitrary: w)
  case Nil
  show ?case by simp
next
  case (Cons d dests)
  show ?case
  proof (cases "EnviarCorreoSSL env cred d as html w")
    case (Pair r w')
    from Pair have w': "w' = snd (EnviarCorreoSSL env cred d as html w)" by simp
    show ?thesis
      using Pair Cons.IH[of w'] by (cases r) (simp_all add: w' EnviarCorreoSSL_snd)
  qed
qed

lemma enviar_a_todos_ok:
  assumes "\<forall>d \<in> set dests. smtp env d \<noteq> Some NoSMTP"
  shows "enviar_a_todos env cred as html dests w =
     (Inr (), w\<lparr>correos := correos w @ map (\<lambda>d. \<lparr>destinatario = d, asunto = as, mensaje = html\<rparr>) dests\<rparr>)"
  using assms
proof (induction dests arbitrary: w)
  case Nil
  show ?case by simp
next
  case (Cons d dests)
  from Cons.prems have "smtp env d \<noteq> Some NoSMTP" by simp
  then obtain r where r: "fst (EnviarCorreoSSL env cred d as html w) = Inr r"
    using EnviarCorreoSSL_fst by blast
  have "EnviarCorreoSSL env cred d as html w =
          (Inr r, w\<lparr>correos := correos w @ [\<lparr>destinatario = d, asunto = as, mensaje = html\<rparr>]\<rparr>)"
    using r EnviarCorreoSSL_snd[of env cred d as html w] by (simp add: prod_eq_iff)
  with Cons show ?case by simp
qed

lemma enviar_a_todos_aborta:
  assumes "smtp env d = Some NoSMTP"
  shows "enviar_a_todos env cred as html (d # dests) w =
     (Inl OSError, w\<lparr>correos := correos w @ [\<lparr>destinatario = d, asunto = as, mensaje = html\<rparr>]\<rparr>)"
  using assms by (simp add: EnviarCorreoSSL_def)

subsection \<open>One tick\<close>

lemma tick_throttled:
  assumes "parametros_json env = Inr cfg"
    and "last_alert_sent (alert_manager w) = Some enviado"
    and "ahora env - enviado < intervalo (email_de cfg)"
  shows "enviar_alertas_si_toca env w = (Inr (), w)"
  using assms by (simp add: enviar_alertas_si_toca_def Let_def)

lemma tick_dispatch_state:
  assumes "parametros_json env = Inr cfg"
    and "enabled (email_de cfg) = Some True"
    and "\<forall>enviado. last_alert_sent (alert_manager w) = Some enviado \<longrightarrow> intervalo (email_de cfg) \<le> ahora env - enviado"
    and "fst (generar_alertas env None w) = Inr alertas" and "alertas \<noteq> []"
  shows "alert_manager (snd (enviar_alertas_si_toca env w)) =
           \<lparr>last_alert_sent = Some (ahora env), ultimas_alertas = alertas\<rparr>"
proof -
  obtain w1 where g: "generar_alertas env None w = (Inr alertas, w1)"
    using assms(4) by (cases "generar_alertas env None w") simp
  have due: "\<not> (case last_alert_sent (alert_manager w) of None \<Rightarrow> False
               | Some enviado \<Rightarrow> ahora env - enviado < intervalo (email_de cfg))"
    using assms(3) by (auto split: option.splits)
  show ?thesis
    using assms(1,2,5) g due
    by (simp add: enviar_alertas_si_toca_def Let_def enviar_a_todos_manager split: sum.splits)
qed

lemma tick_changed:
  assumes "alert_manager (snd (enviar_alertas_si_toca env w)) \<noteq> alert_manager w
           \<or> correos (snd (enviar_alertas_si_toca env w)) \<noteq> correos w"
  shows "last_alert_sent (alert_manager (snd (enviar_alertas_si_toca env w))) = Some (ahora env)"
proof -
  obtain r w1 where g: "generar_alertas env None w = (r, w1)"
    by (cases "generar_alertas env None w")
  from generar_alertas_frame[of env None w] g
  have f: "alert_manager w1 = alert_manager w" "correos w1 = correos w" by simp_all
  show ?thesis
    using assms g f
    by (auto simp: enviar_alertas_si_toca_def Let_def enviar_a_todos_manager
        split: sum.splits if_splits option.splits)
qed

lemma tick_sin_alertas:
  assumes "parametros_json env = Inr cfg"
    and "fst (generar_alertas env None w) = Inr []"
  shows "fst (enviar_alertas_si_toca env w) = Inr ()
       \<and> alert_manager (snd (enviar_alertas_si_toca env w)) = alert_manager w
       \<and> correos (snd (enviar_alertas_si_toca env w)) = correos w"
proof -
  obtain w1 where g: "generar_alertas env None w = (Inr [], w1)"
    using assms(2) by (cases "generar_alertas env None w") simp
  from generar_alertas_frame[of env None w] g
  have f: "alert_manager w1 = alert_manager w" "correos w1 = correos w" by simp_all
  show ?thesis
    using assms(1) g f by (simp add: enviar_alertas_si_toca_def Let_def split: option.splits)
qed

lemma tick_dispatch_unfold:
  assumes "parametros_json env = Inr cfg"
    and "enabled (email_de cfg) = Some True"
    and "\<forall>enviado. last_alert_sent (alert_manager w) = Some enviado \<longrightarrow> intervalo (email_de cfg) \<le> ahora env - enviado"
    and "generar_alertas env None w = (Inr alertas, w1)" and "alertas \<noteq> []"
    and "credenciales_json env = Inr cred"
  shows "enviar_alertas_si_toca env w =
           enviar_a_todos env cred ''ALERTA DE TEMPERATURA EN CPD''
             (map (\<lambda>a. (ubicacion a, texto a)) alertas) (destinatarios_de (email_de cfg))
             (w1\<lparr>alert_manager := \<lparr>last_alert_sent = Some (ahora env), ultimas_alertas = alertas\<rparr>\<rparr>)"
proof -
  have due: "\<not> (case last_alert_sent (alert_manager w) of None \<Rightarrow> False
               | Some enviado \<Rightarrow> ahora env - enviado < intervalo (email_de cfg))"
    using assms(3) by (auto split: option.splits)
  show ?thesis
    using assms(1,2,4,5,6) due
    by (simp add: enviar_alertas_si_toca_def Let_def del: enviar_a_todos.simps)
qed

lemma tick_dispatch_all_recipients:
  assumes "parametros_json env = Inr cfg"
    and "enabled (email_de cfg) = Some True"
    and "\<forall>enviado. last_alert_sent (alert_manager w) = Some enviado \<longrightarrow> intervalo (email_de cfg) \<le> ahora env - enviado"
    and "generar_alertas env None w = (Inr alertas, w1)" and "alertas \<noteq> []"
    and "credenciales_json env = Inr cred"
    and "\<forall>d \<in> set (destinatarios_de (email_de cfg)). smtp env d \<noteq> Some NoSMTP"
  shows "enviar_alertas_si_toca env w =
           (Inr (),
            w1\<lparr>alert_manager := \<lparr>last_alert_sent = Some (ahora env), ultimas_alertas = alertas\<rparr>,
               correos := correos w1 @
                 map (\<lambda>d. \<lparr>destinatario = d, asunto = ''ALERTA DE TEMPERATURA EN CPD'',
                           mensaje = map (\<lambda>a. (ubicacion a, texto a)) alertas\<rparr>)
                   (destinatarios_de (email_de cfg))\<rparr>)"
  by (simp only: tick_dispatch_unfold[OF assms(1-6)] enviar_a_todos_ok[OF assms(7)]) simp

subsection \<open>The example deployment\<close>

lemma tick_ejemplo:
  "enviar_alertas_si_toca (entorno_ejemplo 12) mundo_inicial = (Inr (), mundo_tras_envio)"
proof -
  have e: "\<forall>d \<in> set [''ana@cpd.example'', ''luis@cpd.example'']. smtp (entorno_ejemplo 12) d \<noteq> Some NoSMTP"
    by (simp add: entorno_ejemplo_def)
  have g: "generar_alertas (entorno_ejemplo 12) None mundo_inicial =
     (Inr alertas_esperadas,
      mundo_inicial\<lparr>consultas := consultas mundo_inicial @ [ConsultaLatest None, ConsultaSpikes (filtro_spikes None)]\<rparr>)"
    by (rule generar_ejemplo_par)
  have c: "parametros_json (entorno_ejemplo 12) = Inr config_ejemplo"
    "credenciales_json (entorno_ejemplo 12) = Inr credenciales_ejemplo"
    "ahora (entorno_ejemplo 12) = 720000000"
    by (simp_all add: entorno_ejemplo_def)
  have d: "email_de config_ejemplo = \<lparr>enabled = Some True, intervalo_envio_min = Some 30,
                    destinatarios = Some [''ana@cpd.example'', ''luis@cpd.example'']\<rparr>"
    by (simp add: email_de_def config_ejemplo_def)
  have m: "last_alert_sent (alert_manager mundo_inicial) = None"
    by (simp add: mundo_inicial_def AlertManager_init_def)
  have "enviar_alertas_si_toca (entorno_ejemplo 12) mundo_inicial =
     (Inr (), mundo_inicial
        \<lparr>consultas := [ConsultaLatest None, ConsultaSpikes None],
         alert_manager := \<lparr>last_alert_sent = Some 720000000, ultimas_alertas = alertas_esperadas\<rparr>,
         correos := [correo_esperado ''ana@cpd.example'', correo_esperado ''luis@cpd.example'']\<rparr>)"
    by (simp add: enviar_alertas_si_toca_def c d g m alertas_esperadas_no_vacia destinatarios_de_def
        enviar_a_todos_ok[OF e] correo_esperado_def filtro_spikes_def Let_def
        del: enviar_a_todos.simps)
      (simp add: mundo_inicial_def)
  then show ?thesis
    by (simp add: mundo_inicial_def mundo_tras_envio_def)
qed

lemma generar_tranquilo:
  "fst (generar_alertas (entorno_tranquilo m) None w) = Inr []"
  by (simp add: generar_alertas_fst entorno_tranquilo_def entorno_ejemplo_def config_ejemplo_def
      fila_def evaluar_umbral_def Let_def filtro_spikes_def spikes_de_rows_def)

lemma generar_smtp_caido:
  "generar_alertas (entorno_smtp_caido m) location w = generar_alertas (entorno_ejemplo m) location w"
  by (rule generar_alertas_mismo_entorno) (simp_all add: entorno_smtp_caido_def)

lemma generar_rechazo:
  "generar_alertas (entorno_rechazo m) location w = generar_alertas (entorno_ejemplo m) location w"
  by (rule generar_alertas_mismo_entorno) (simp_all add: entorno_rechazo_def)

lemma email_ejemplo:
  "email_de config_ejemplo = \<lparr>enabled = Some True, intervalo_envio_min = Some 30,
                    destinatarios = Some [''ana@cpd.example'', ''luis@cpd.example'']\<rparr>"
  by (simp add: email_de_def config_ejemplo_def)

lemma tick_rechazo:
  "enviar_alertas_si_toca (entorno_rechazo 12) mundo_inicial = (Inr (), mundo_tras_envio)"
proof -
  have c: "parametros_json (entorno_rechazo 12) = Inr config_ejemplo"
    "credenciales_json (entorno_rechazo 12) = Inr credenciales_ejemplo"
    "ahora (entorno_rechazo 12) = 720000000"
    by (simp_all add: entorno_rechazo_def entorno_ejemplo_def)
  have e: "enabled (email_de config_ejemplo) = Some True" by (simp add: email_ejemplo)
  have m: "\<forall>enviado. last_alert_sent (alert_manager mundo_inicial) = Some enviado
             \<longrightarrow> intervalo (email_de config_ejemplo) \<le> ahora (entorno_rechazo 12) - enviado"
    by (simp add: mundo_inicial_def AlertManager_init_def)
  have g: "generar_alertas (entorno_rechazo 12) None mundo_inicial =
     (Inr alertas_esperadas,
      mundo_inicial\<lparr>consultas := consultas mundo_inicial @ [ConsultaLatest None, ConsultaSpikes (filtro_spikes None)]\<rparr>)"
    by (simp only: generar_rechazo generar_ejemplo_par)
  have s: "\<forall>d \<in> set (destinatarios_de (email_de config_ejemplo)). smtp (entorno_rechazo 12) d \<noteq> Some NoSMTP"
    by (simp add: entorno_rechazo_def destinatarios_de_def email_ejemplo)
  show ?thesis
    by (simp only: tick_dispatch_all_recipients[OF c(1) e m g alertas_esperadas_no_vacia c(2) s])
      (simp add: c mundo_inicial_def mundo_tras_envio_def correo_esperado_def filtro_spikes_def
        destinatarios_de_def email_ejemplo)
qed


section \<open>Claims about the scheduler\<close>

text \<open>
  C2. A tick that finds \<open>last_alert_sent\<close> set and less than the configured interval
  before its own time returns without sending anything and without changing the state
  of the process. Hence, of two consecutive ticks less than the configured interval
  apart, when the first one dispatched (it changed the alert manager or called the
  mailer), the second one does nothing: after both ticks the process is in the state the
  first tick left, with the mailer calls of the first tick and no others.
\<close>

theorem throttled_tick_does_nothing:
  assumes "parametros_json env2 = Inr cfg2"
  shows "(last_alert_sent (alert_manager w) = Some enviado \<and>
          ahora env2 - enviado < intervalo (email_de cfg2) \<longrightarrow>
            enviar_alertas_si_toca env2 w = (Inr (), w))
       \<and> ((alert_manager (snd (enviar_alertas_si_toca env1 w)) \<noteq> alert_manager w \<or>
            correos (snd (enviar_alertas_si_toca env1 w)) \<noteq> correos w) \<and>
           ahora env2 - ahora env1 < intervalo (email_de cfg2) \<longrightarrow>
             loop_envio_alertas [env1, env2] w = snd (enviar_alertas_si_toca env1 w))"
proof (intro conjI impI)
  assume "last_alert_sent (alert_manager w) = Some enviado \<and>
          ahora env2 - enviado < intervalo (email_de cfg2)"
  then show "enviar_alertas_si_toca env2 w = (Inr (), w)"
    using tick_throttled[OF assms] by blast
next
  let ?w1 = "snd (enviar_alertas_si_toca env1 w)"
  assume a: "(alert_manager ?w1 \<noteq> alert_manager w \<or> correos ?w1 \<noteq> correos w) \<and>
           ahora env2 - ahora env1 < intervalo (email_de cfg2)"
  then have "last_alert_sent (alert_manager ?w1) = Some (ahora env1)"
    using tick_changed[of env1 w] by blast
  from tick_throttled[OF assms this] a
  have "enviar_alertas_si_toca env2 ?w1 = (Inr (), ?w1)" by blast
  then show "loop_envio_alertas [env1, env2] w = ?w1" by simp
qed

theorem throttled_tick_does_nothing_witness:
  "parametros_json (entorno_ejemplo 13) = Inr config_ejemplo
   \<and> last_alert_sent (alert_manager mundo_tras_envio) = Some 720000000
   \<and> ahora (entorno_ejemplo 13) - 720000000 < intervalo (email_de config_ejemplo)
   \<and> enviar_alertas_si_toca (entorno_ejemplo 13) mundo_tras_envio = (Inr (), mundo_tras_envio)
   \<and> correos (snd (enviar_alertas_si_toca (entorno_ejemplo 12) mundo_inicial)) \<noteq> correos mundo_inicial
   \<and> ahora (entorno_ejemplo 13) - ahora (entorno_ejemplo 12) < intervalo (email_de config_ejemplo)
   \<and> loop_envio_alertas [entorno_ejemplo 12, entorno_ejemplo 13] mundo_inicial = mundo_tras_envio
   \<and> map destinatario (correos (loop_envio_alertas [entorno_ejemplo 12, entorno_ejemplo 13] mundo_inicial))
        = [''ana@cpd.example'', ''luis@cpd.example'']"
proof -
  have h1: "parametros_json (entorno_ejemplo 13) = Inr config_ejemplo"
    by (simp add: entorno_ejemplo_def)
  have h2: "last_alert_sent (alert_manager mundo_tras_envio) = Some 720000000"
    by (simp add: mundo_tras_envio_def)
  have h3: "ahora (entorno_ejemplo 13) - 720000000 < intervalo (email_de config_ejemplo)"
    by (simp add: entorno_ejemplo_def intervalo_def email_de_def config_ejemplo_def)
  have h4: "correos (snd (enviar_alertas_si_toca (entorno_ejemplo 12) mundo_inicial)) \<noteq> correos mundo_inicial"
    by (simp only: tick_ejemplo snd_conv) (simp add: mundo_tras_envio_def mundo_inicial_def)
  have h5: "ahora (entorno_ejemplo 13) - ahora (entorno_ejemplo 12) < intervalo (email_de config_ejemplo)"
    by (simp add: entorno_ejemplo_def intervalo_def email_de_def config_ejemplo_def)
  note t = throttled_tick_does_nothing[OF h1, of mundo_tras_envio 720000000]
  have c1: "enviar_alertas_si_toca (entorno_ejemplo 13) mundo_tras_envio = (Inr (), mundo_tras_envio)"
    by (rule t[THEN conjunct1, THEN mp, OF conjI[OF h2 h3]])
  note t2 = throttled_tick_does_nothing[OF h1, of mundo_inicial _ "entorno_ejemplo 12"]
  have "loop_envio_alertas [entorno_ejemplo 12, entorno_ejemplo 13] mundo_inicial
          = snd (enviar_alertas_si_toca (entorno_ejemplo 12) mundo_inicial)"
    by (rule t2[THEN conjunct2, THEN mp, OF conjI[OF disjI2[OF h4] h5]])
  then have c2: "loop_envio_alertas [entorno_ejemplo 12, entorno_ejemplo 13] mundo_inicial = mundo_tras_envio"
    by (simp only: tick_ejemplo snd_conv)
  have c3: "map destinatario (correos (loop_envio_alertas [entorno_ejemplo 12, entorno_ejemplo 13] mundo_inicial))
        = [''ana@cpd.example'', ''luis@cpd.example'']"
    by (simp only: c2) (simp add: mundo_tras_envio_def correo_esperado_def)
  show ?thesis by (intro conjI) (fact+)
qed

text \<open>
  C5. A tick that is due (dispatch enabled, and either nothing was sent before or the
  interval has passed) and whose aggregation returns no alert changes neither
  \<open>last_alert_sent\<close> nor \<open>ultimas_alertas\<close> and calls the mailer for nobody.
\<close>

theorem empty_cycle_keeps_dispatch_state:
  assumes "parametros_json env = Inr cfg"
    and "enabled (email_de cfg) = Some True"
    and "last_alert_sent (alert_manager w) = None
         \<or> (\<exists>enviado. last_alert_sent (alert_manager w) = Some enviado
                      \<and> intervalo (email_de cfg) \<le> ahora env - enviado)"
    and "fst (generar_alertas env None w) = Inr []"
  shows "fst (enviar_alertas_si_toca env w) = Inr ()
       \<and> last_alert_sent (alert_manager (snd (enviar_alertas_si_toca env w))) = last_alert_sent (alert_manager w)
       \<and> ultimas_alertas (alert_manager (snd (enviar_alertas_si_toca env w))) = ultimas_alertas (alert_manager w)
       \<and> correos (snd (enviar_alertas_si_toca env w)) = correos w"
  using tick_sin_alertas[OF assms(1,4)] by simp

theorem empty_cycle_keeps_dispatch_state_witness:
  "parametros_json (entorno_tranquilo 12) = Inr config_ejemplo
   \<and> enabled (email_de config_ejemplo) = Some True
   \<and> last_alert_sent (alert_manager mundo_inicial) = None
   \<and> fst (generar_alertas (entorno_tranquilo 12) None mundo_inicial) = Inr []
   \<and> fst (enviar_alertas_si_toca (entorno_tranquilo 12) mundo_inicial) = Inr ()
   \<and> last_alert_sent (alert_manager (snd (enviar_alertas_si_toca (entorno_tranquilo 12) mundo_inicial))) = None
   \<and> ultimas_alertas (alert_manager (snd (enviar_alertas_si_toca (entorno_tranquilo 12) mundo_inicial))) = []
   \<and> correos (snd (enviar_alertas_si_toca (entorno_tranquilo 12) mundo_inicial)) = []"
proof -
  have h1: "parametros_json (entorno_tranquilo 12) = Inr config_ejemplo"
    by (simp add: entorno_tranquilo_def entorno_ejemplo_def)
  have h2: "enabled (email_de config_ejemplo) = Some True"
    by (simp add: email_de_def config_ejemplo_def)
  have h3: "last_alert_sent (alert_manager mundo_inicial) = None"
    by (simp add: mundo_inicial_def AlertManager_init_def)
  have h4: "fst (generar_alertas (entorno_tranquilo 12) None mundo_inicial) = Inr []"
    by (rule generar_tranquilo)
  have m: "ultimas_alertas (alert_manager mundo_inicial) = []" "correos mundo_inicial = []"
    by (simp_all add: mundo_inicial_def AlertManager_init_def)
  note t = empty_cycle_keeps_dispatch_state[OF h1 h2 disjI1[OF h3] h4]
  have c1: "fst (enviar_alertas_si_toca (entorno_tranquilo 12) mundo_inicial) = Inr ()"
    by (rule t[THEN conjunct1])
  have c2: "last_alert_sent (alert_manager (snd (enviar_alertas_si_toca (entorno_tranquilo 12) mundo_inicial))) = None"
    using t[THEN conjunct2, THEN conjunct1] by (simp only: h3)
  have c3: "ultimas_alertas (alert_manager (snd (enviar_alertas_si_toca (entorno_tranquilo 12) mundo_inicial))) = []"
    using t[THEN conjunct2, THEN conjunct2, THEN conjunct1] by (simp only: m)
  have c4: "correos (snd (enviar_alertas_si_toca (entorno_tranquilo 12) mundo_inicial)) = []"
    using t[THEN conjunct2, THEN conjunct2, THEN conjunct2] by (simp only: m)
  show ?thesis by (intro conjI) (fact+)
qed

text \<open>
  C4 holds in part. A dispatching tick saves \<open>ultimas_alertas\<close> and
  \<open>last_alert_sent\<close> before the first call of the mailer (\<open>tick_dispatch_unfold\<close>),
  no later step changes them (\<open>enviar_a_todos_manager\<close>), and a send that fails with an
  \<open>smtplib.SMTPException\<close> is reported by \<open>EnviarCorreoSSL\<close> as \<open>False\<close>, after which
  the loop goes on to the next recipient (\<open>tick_dispatch_all_recipients\<close>,
  \<open>tick_rechazo\<close>). But \<open>EnviarCorreoSSL\<close> catches only \<open>smtplib.SMTPException\<close> and
  its subclasses. A send that fails outside that hierarchy (the connection is refused or
  times out, the name of the server does not resolve, the TLS handshake fails) raises
  through \<open>EnviarCorreoSSL\<close> and through the loop over the recipients, which has no
  \<open>try\<close>, so the remaining recipients are never served.

  C4, at a concrete input: two recipients are configured and the connection to the SMTP
  server fails while the first one is served. The tick ends with the exception, the
  state stays saved, and the mailer was called for the first recipient only.
\<close>

theorem connection_failure_skips_remaining_recipients:
  "fst (enviar_alertas_si_toca (entorno_smtp_caido 12) mundo_inicial) = Inl OSError
   \<and> alert_manager (snd (enviar_alertas_si_toca (entorno_smtp_caido 12) mundo_inicial))
       = \<lparr>last_alert_sent = Some 720000000, ultimas_alertas = alertas_esperadas\<rparr>
   \<and> destinatarios_de (email_de config_ejemplo) = [''ana@cpd.example'', ''luis@cpd.example'']
   \<and> correos (snd (enviar_alertas_si_toca (entorno_smtp_caido 12) mundo_inicial))
       = [correo_esperado ''ana@cpd.example'']"
proof -
  have c: "parametros_json (entorno_smtp_caido 12) = Inr config_ejemplo"
    "credenciales_json (entorno_smtp_caido 12) = Inr credenciales_ejemplo"
    "ahora (entorno_smtp_caido 12) = 720000000"
    by (simp_all add: entorno_smtp_caido_def entorno_ejemplo_def)
  have e: "enabled (email_de config_ejemplo) = Some True" by (simp add: email_ejemplo)
  have m: "\<forall>enviado. last_alert_sent (alert_manager mundo_inicial) = Some enviado
             \<longrightarrow> intervalo (email_de config_ejemplo) \<le> ahora (entorno_smtp_caido 12) - enviado"
    by (simp add: mundo_inicial_def AlertManager_init_def)
  have g: "generar_alertas (entorno_smtp_caido 12) None mundo_inicial =
     (Inr alertas_esperadas,
      mundo_inicial\<lparr>consultas := consultas mundo_inicial @ [ConsultaLatest None, ConsultaSpikes (filtro_spikes None)]\<rparr>)"
    by (simp only: generar_smtp_caido generar_ejemplo_par)
  have d: "destinatarios_de (email_de config_ejemplo) = [''ana@cpd.example'', ''luis@cpd.example'']"
    by (simp add: destinatarios_de_def email_ejemplo)
  have s: "smtp (entorno_smtp_caido 12) ''ana@cpd.example'' = Some NoSMTP"
    by (simp add: entorno_smtp_caido_def)
  have t: "enviar_alertas_si_toca (entorno_smtp_caido 12) mundo_inicial =
      (Inl OSError,
       mundo_inicial\<lparr>consultas := consultas mundo_inicial @ [ConsultaLatest None, ConsultaSpikes (filtro_spikes None)],
                     alert_manager := \<lparr>last_alert_sent = Some 720000000, ultimas_alertas = alertas_esperadas\<rparr>,
                     correos := [correo_esperado ''ana@cpd.example'']\<rparr>)"
    by (simp only: tick_dispatch_unfold[OF c(1) e m g alertas_esperadas_no_vacia c(2)] d
          enviar_a_todos_aborta[OF s])
       (simp add: c mundo_inicial_def correo_esperado_def)
  show ?thesis
    by (simp only: t d) simp
qed

end
